theory Spec2Isabelle
  imports Main "HOL-Library.Sublist"
begin

section \<open>Python strings and values\<close>

text \<open>
  A Python \<^verbatim>\<open>str\<close> is a sequence of Unicode code points, and the templates of
  \<^verbatim>\<open>Main.py\<close> hold code points beyond ASCII. A string is therefore a list of code
  points; \<open>ustr\<close> embeds an ASCII literal, and the other code points are written as
  numbers.
\<close>

type_synonym uchar = nat
type_synonym pystr = "uchar list"

definition ustr :: "string \<Rightarrow> pystr" where
  "ustr cs = map of_char cs"

text \<open>
  The values a customization dictionary holds: the interface passes strings, booleans
  and \<^verbatim>\<open>None\<close>, and the defaults of \<^verbatim>\<open>NewsletterGenerator\<close> are of these types.
\<close>

datatype pyval = PNone | PBool bool | PStr pystr

text \<open>Truth value testing, as \<^verbatim>\<open>if v\<close> and \<^verbatim>\<open>v if c else w\<close> do it.\<close>

fun truthy :: "pyval \<Rightarrow> bool" where
  "truthy PNone = False"
| "truthy (PBool b) = b"
| "truthy (PStr s) = (s \<noteq> [])"

text \<open>\<^verbatim>\<open>str(v)\<close>, which is also what a replacement field \<^verbatim>\<open>{v}\<close> of an f-string inserts.\<close>

fun py_str :: "pyval \<Rightarrow> pystr" where
  "py_str PNone = ustr ''None''"
| "py_str (PBool b) = (if b then ustr ''True'' else ustr ''False'')"
| "py_str (PStr s) = s"

fun type_name :: "pyval \<Rightarrow> pystr" where
  "type_name PNone = ustr ''NoneType''"
| "type_name (PBool b) = ustr ''bool''"
| "type_name (PStr s) = ustr ''str''"

type_synonym pydict = "pystr \<rightharpoonup> pyval"

text \<open>\<^verbatim>\<open>d.get(k, default)\<close>\<close>

definition dict_get :: "('k \<rightharpoonup> 'v) \<Rightarrow> 'k \<Rightarrow> 'v \<Rightarrow> 'v" where
  "dict_get d k dflt = (case d k of Some v \<Rightarrow> v | None \<Rightarrow> dflt)"

text \<open>
  The number of positions of a string at which a given string occurs: what
  ``contains exactly once'' and ``omits'' are stated with.
\<close>

fun occurrences :: "'a list \<Rightarrow> 'a list \<Rightarrow> nat" where
  "occurrences sub [] = (if sub = [] then 1 else 0)"
| "occurrences sub (c # s) = (if prefix sub (c # s) then 1 else 0) + occurrences sub s"


section \<open>Main.py: the customization options\<close>

text \<open>
  The local variables that \<^verbatim>\<open>NewsletterGenerator\<close> reads out of the customization
  dictionary (lines 68 to 76), each with its default.
\<close>

record options =
  tone :: pyval
  length_opt :: pyval
  focus :: pyval
  include_images :: pyval
  include_cta :: pyval
  include_stats :: pyval
  include_quotes :: pyval
  template :: pyval
  custom_sections :: pyval

text \<open>\<^verbatim>\<open>if customization is None: customization = {}\<close>\<close>

definition customization_or_empty :: "pydict option \<Rightarrow> pydict" where
  "customization_or_empty customization =
     (case customization of None \<Rightarrow> Map.empty | Some d \<Rightarrow> d)"

definition extract_options :: "pydict \<Rightarrow> options" where
  "extract_options customization =
     \<lparr> tone = dict_get customization (ustr ''tone'') (PStr (ustr ''Professional'')),
       length_opt = dict_get customization (ustr ''length'') (PStr (ustr ''Medium (1000 words)'')),
       focus = dict_get customization (ustr ''focus'') (PStr (ustr ''Balanced'')),
       include_images = dict_get customization (ustr ''include_images'') (PBool False),
       include_cta = dict_get customization (ustr ''include_cta'') (PBool False),
       include_stats = dict_get customization (ustr ''include_stats'') (PBool True),
       include_quotes = dict_get customization (ustr ''include_quotes'') (PBool True),
       template = dict_get customization (ustr ''template'') (PStr (ustr ''Standard'')),
       custom_sections = dict_get customization (ustr ''custom_sections'') PNone \<rparr>"

text \<open>The f-string \<^verbatim>\<open>style_instructions\<close> (lines 79 to 88).\<close>

definition style_instructions :: "options \<Rightarrow> pystr" where
  "style_instructions opts =
     ustr (''\<newline>'' @
       ''    Writing Style:\<newline>'' @
       ''    - Tone: '') @
     py_str (tone opts) @
     ustr (''\<newline>'' @
       ''    - Length: '') @
     py_str (length_opt opts) @
     ustr (''\<newline>'' @
       ''    - Focus: '') @
     py_str (focus opts) @
     ustr (''\<newline>'' @
       ''    '') @
     (if truthy (include_images opts)
      then ustr ''- Include image placeholders with [Image: description]'' else ustr []) @
     ustr (''\<newline>'' @
       ''    '') @
     (if truthy (include_cta opts)
      then ustr ''- Include a clear call-to-action at the end'' else ustr []) @
     ustr (''\<newline>'' @
       ''    '') @
     (if truthy (include_stats opts)
      then ustr ''- Emphasize statistics and data points'' else ustr []) @
     ustr (''\<newline>'' @
       ''    '') @
     (if truthy (include_quotes opts)
      then ustr ''- Include expert quotes when available'' else ustr []) @
     ustr (''\<newline>'' @
       ''    '')"


section \<open>Main.py: the section templates\<close>

definition Standard_skeleton :: pystr where
  "Standard_skeleton =
     ustr (''\<newline>'' @
       ''        # [Compelling Subject Line]\<newline>'' @
       ''        \<newline>'' @
       ''        ## Welcome\<newline>'' @
       ''        [Engaging introduction]\<newline>'' @
       ''        \<newline>'' @
       ''        ## [Main Story]\<newline>'' @
       ''        [Key insights and analysis]\<newline>'' @
       ''        \<newline>'' @
       ''        ## Featured Content\<newline>'' @
       ''        [Deeper exploration]\<newline>'' @
       ''        \<newline>'' @
       ''        ## Quick Updates\<newline>'' @
       ''        [Bullet points with actionable insights]\<newline>'' @
       ''        \<newline>'' @
       ''        ## This Week's Highlights\<newline>'' @
       ''        [Notable developments]\<newline>'' @
       ''        \<newline>'' @
       ''        ## Sources & Further Reading\<newline>'' @
       ''        [Properly cited sources]\<newline>'' @
       ''        '')"

definition Tech_News_skeleton :: pystr where
  "Tech_News_skeleton =
     ustr (''\<newline>'' @
       ''        # '') @
     [128640] @
     ustr ('' [Tech Headline]\<newline>'' @
       ''        \<newline>'' @
       ''        ## '') @
     [128161] @
     ustr ('' The Big Picture\<newline>'' @
       ''        [Context and why it matters]\<newline>'' @
       ''        \<newline>'' @
       ''        ## '') @
     [128300] @
     ustr ('' Deep Dive\<newline>'' @
       ''        [Technical analysis]\<newline>'' @
       ''        \<newline>'' @
       ''        ## '') @
     [128188] @
     ustr ('' Industry Impact\<newline>'' @
       ''        [Business implications]\<newline>'' @
       ''        \<newline>'' @
       ''        ## '') @
     [128736, 65039] @
     ustr ('' What You Can Do\<newline>'' @
       ''        [Actionable takeaways]\<newline>'' @
       ''        \<newline>'' @
       ''        ## '') @
     [128240] @
     ustr ('' More Headlines\<newline>'' @
       ''        [Quick hits]\<newline>'' @
       ''        \<newline>'' @
       ''        ## '') @
     [128279] @
     ustr ('' Resources\<newline>'' @
       ''        [Links and sources]\<newline>'' @
       ''        '')"

definition Business_Weekly_skeleton :: pystr where
  "Business_Weekly_skeleton =
     ustr (''\<newline>'' @
       ''        # '') @
     [128202] @
     ustr ('' [Business Headline]\<newline>'' @
       ''        \<newline>'' @
       ''        ## Executive Summary\<newline>'' @
       ''        [Quick overview]\<newline>'' @
       ''        \<newline>'' @
       ''        ## Market Analysis\<newline>'' @
       ''        [Trends and movements]\<newline>'' @
       ''        \<newline>'' @
       ''        ## Company Spotlight\<newline>'' @
       ''        [Featured business/leader]\<newline>'' @
       ''        \<newline>'' @
       ''        ## Investment Insights\<newline>'' @
       ''        [Financial implications]\<newline>'' @
       ''        \<newline>'' @
       ''        ## Week Ahead\<newline>'' @
       ''        [What to watch]\<newline>'' @
       ''        \<newline>'' @
       ''        ## Sources\<newline>'' @
       ''        [References]\<newline>'' @
       ''        '')"

definition Research_Digest_skeleton :: pystr where
  "Research_Digest_skeleton =
     ustr (''\<newline>'' @
       ''        # '') @
     [128300] @
     ustr ('' [Research Topic]\<newline>'' @
       ''        \<newline>'' @
       ''        ## Abstract\<newline>'' @
       ''        [Summary of key findings]\<newline>'' @
       ''        \<newline>'' @
       ''        ## Key Research\<newline>'' @
       ''        [Main studies and papers]\<newline>'' @
       ''        \<newline>'' @
       ''        ## Methodology Spotlight\<newline>'' @
       ''        [Interesting approaches]\<newline>'' @
       ''        \<newline>'' @
       ''        ## Implications\<newline>'' @
       ''        [What this means]\<newline>'' @
       ''        \<newline>'' @
       ''        ## Future Directions\<newline>'' @
       ''        [What's next]\<newline>'' @
       ''        \<newline>'' @
       ''        ## References\<newline>'' @
       ''        [Academic sources]\<newline>'' @
       ''        '')"

text \<open>
  The dictionary \<^verbatim>\<open>templates\<close> (lines 91 to 181), in the order of the source. Its
  last entry is computed from \<^verbatim>\<open>custom_sections\<close>.
\<close>

definition templates :: "options \<Rightarrow> (pyval \<times> pyval) list" where
  "templates opts =
     [ (PStr (ustr ''Standard''), PStr Standard_skeleton),
       (PStr (ustr ''Tech News''), PStr Tech_News_skeleton),
       (PStr (ustr ''Business Weekly''), PStr Business_Weekly_skeleton),
       (PStr (ustr ''Research Digest''), PStr Research_Digest_skeleton),
       (PStr (ustr ''Custom''),
          (if truthy (custom_sections opts) then custom_sections opts
           else PStr (ustr ''Standard''))) ]"

text \<open>
  \<^verbatim>\<open>selected_template = templates.get(template, templates["Standard"])\<close>. The
  table always has the key \<^verbatim>\<open>"Standard"\<close>, so the subscript never raises and
  the last branch is never taken.
\<close>

definition selected_template :: "options \<Rightarrow> pyval" where
  "selected_template opts =
     (case map_of (templates opts) (PStr (ustr ''Standard'')) of
        Some dflt \<Rightarrow> dict_get (map_of (templates opts)) (template opts) dflt
      | None \<Rightarrow> PNone)"


section \<open>Python string methods\<close>

text \<open>
  \<^verbatim>\<open>s.replace(old, new)\<close>: the occurrences of \<^verbatim>\<open>old\<close> are found from left to
  right and do not overlap; an empty \<^verbatim>\<open>old\<close> matches before every character and at
  the end.
\<close>

function py_replace :: "'a list \<Rightarrow> 'a list \<Rightarrow> 'a list \<Rightarrow> 'a list" where
  "py_replace s old new =
     (if old = [] then new @ concat (map (\<lambda>c. c # new) s)
      else if s = [] then []
      else if prefix old s then new @ py_replace (drop (length old) s) old new
      else hd s # py_replace (tl s) old new)"
  by pat_completeness auto
termination
  by (relation "measure (\<lambda>(s, old, new). length s)") auto

text \<open>\<^verbatim>\<open>s.count(sub)\<close>: the same scan, counting.\<close>

function py_count :: "'a list \<Rightarrow> 'a list \<Rightarrow> nat" where
  "py_count s sub =
     (if sub = [] then length s + 1
      else if s = [] then 0
      else if prefix sub s then 1 + py_count (drop (length sub) s) sub
      else py_count (tl s) sub)"
  by pat_completeness auto
termination
  by (relation "measure (\<lambda>(s, sub). length s)") auto

text \<open>\<^verbatim>\<open>sub in s\<close>\<close>

fun py_in :: "'a list \<Rightarrow> 'a list \<Rightarrow> bool" where
  "py_in sub [] = (sub = [])"
| "py_in sub (c # s) = (prefix sub (c # s) \<or> py_in sub s)"

text \<open>
  The code points for which \<^verbatim>\<open>str.isspace\<close> holds: \<^verbatim>\<open>s.split()\<close> splits at
  runs of them.
\<close>

definition py_isspace :: "uchar \<Rightarrow> bool" where
  "py_isspace c \<longleftrightarrow>
     c \<in> {9, 10, 11, 12, 13, 28, 29, 30, 31, 32, 133, 160, 5760, 8232, 8233, 8239, 8287, 12288}
     \<or> (8192 \<le> c \<and> c \<le> 8202)"

text \<open>
  \<^verbatim>\<open>s.split()\<close>: skip whitespace, take the characters up to the next whitespace, and
  go on behind them; no empty word is returned.
\<close>

function py_split :: "pystr \<Rightarrow> pystr list" where
  "py_split s =
     (case dropWhile py_isspace s of
        [] \<Rightarrow> []
      | c # r \<Rightarrow> (c # takeWhile (\<lambda>x. \<not> py_isspace x) r)
                   # py_split (dropWhile (\<lambda>x. \<not> py_isspace x) r))"
  by pat_completeness auto
termination
proof (relation "measure length")
  fix s :: pystr and c r
  assume "dropWhile py_isspace s = c # r"
  then have "length s \<ge> Suc (length r)"
    using length_dropWhile_le [of py_isspace s] by simp
  moreover have "length (dropWhile (\<lambda>x. \<not> py_isspace x) r) \<le> length r"
    by (rule length_dropWhile_le)
  ultimately show "(dropWhile (\<lambda>x. \<not> py_isspace x) r, s) \<in> measure length"
    by simp
qed simp

text \<open>
  \<^verbatim>\<open>s.split(sep)\<close> for a separator of one character, which is what the source
  calls it with: the fields between the separators, at least one.
\<close>

fun py_split_sep :: "'a list \<Rightarrow> 'a \<Rightarrow> 'a list list" where
  "py_split_sep [] sep = [[]]"
| "py_split_sep (c # s) sep =
     (if c = sep then [] # py_split_sep s sep
      else (case py_split_sep s sep of
              f # fs \<Rightarrow> (c # f) # fs
            | [] \<Rightarrow> [[c]]))"

text \<open>\<^verbatim>\<open>str(n)\<close> for a natural number, and \<^verbatim>\<open>f"{n:,}"\<close>.\<close>

function decimal :: "nat \<Rightarrow> pystr" where
  "decimal n = (if n < 10 then [48 + n] else decimal (n div 10) @ [48 + n mod 10])"
  by pat_completeness auto
termination
  by (relation "measure id") auto

function thousands :: "nat \<Rightarrow> pystr" where
  "thousands n =
     (if n < 1000 then decimal n
      else thousands (n div 1000) @ ustr '','' @
           [48 + n div 100 mod 10, 48 + n div 10 mod 10, 48 + n mod 10])"
  by pat_completeness auto
termination
  by (relation "measure id") auto


section \<open>Main.py: the generation pipeline\<close>

text \<open>
  The exceptions the \<^verbatim>\<open>try\<close> block of \<^verbatim>\<open>NewsletterGenerator\<close> can see, each with
  the text \<^verbatim>\<open>str(e)\<close> gives: the two that its own expressions raise, and whatever
  the framework raises. All of them derive from \<^verbatim>\<open>Exception\<close>, which is what the
  \<^verbatim>\<open>except\<close> clause catches; \<^verbatim>\<open>KeyboardInterrupt\<close> and \<^verbatim>\<open>SystemExit\<close>, which
  end the process, are outside the model.
\<close>

datatype exn = AttributeError pystr | IndexError pystr | FrameworkError pystr

fun exn_str :: "exn \<Rightarrow> pystr" where
  "exn_str (AttributeError m) = m"
| "exn_str (IndexError m) = m"
| "exn_str (FrameworkError m) = m"

text \<open>
  The calls that leave the repository: the two \<^verbatim>\<open>Task(...)\<close> constructors (with
  the role of the agent, the description and the expected output), the
  \<^verbatim>\<open>Crew(...)\<close> constructor, and \<^verbatim>\<open>crew.kickoff(inputs={"topic": topic})\<close> with the
  \<^verbatim>\<open>str(result)\<close> that follows it.
\<close>

datatype ext_call =
    New_Task pystr pystr pystr
  | New_Crew
  | Kickoff pystr

text \<open>
  What lies outside the repository. \<open>str_lower\<close> is \<^verbatim>\<open>str.lower\<close> (the Unicode case
  mapping of the Python runtime). \<open>raises\<close> says whether an external call raises, and
  \<open>kickoff_output\<close> what \<^verbatim>\<open>str(result)\<close> is after a kickoff that returned; both may
  depend on every external call made so far, so two equal requests need not have the
  same outcome.
\<close>

record env =
  str_lower :: "pystr \<Rightarrow> pystr"
  raises :: "ext_call list \<Rightarrow> ext_call \<Rightarrow> exn option"
  kickoff_output :: "ext_call list \<Rightarrow> pystr"

text \<open>\<^verbatim>\<open>v.lower()\<close>, defined on strings only.\<close>

definition lower_method :: "env \<Rightarrow> pyval \<Rightarrow> exn + pystr" where
  "lower_method e v =
     (case v of
        PStr s \<Rightarrow> Inr (str_lower e s)
      | _ \<Rightarrow> Inl (AttributeError
                 ([39] @ type_name v @ [39] @ ustr '' object has no attribute '' @
                  [39] @ ustr ''lower'' @ [39])))"

text \<open>\<^verbatim>\<open>length.split('(')[1].split(')')[0]\<close>\<close>

definition approximate_length :: "pyval \<Rightarrow> exn + pystr" where
  "approximate_length v =
     (case v of
        PStr s \<Rightarrow>
          (case py_split_sep s (of_char CHR ''('') of
             _ # b # _ \<Rightarrow>
               (case py_split_sep b (of_char CHR '')'') of
                  a # _ \<Rightarrow> Inr a
                | [] \<Rightarrow> Inl (IndexError (ustr ''list index out of range'')))
           | _ \<Rightarrow> Inl (IndexError (ustr ''list index out of range'')))
      | _ \<Rightarrow> Inl (AttributeError
                 ([39] @ type_name v @ [39] @ ustr '' object has no attribute '' @
                  [39] @ ustr ''split'' @ [39])))"

text \<open>The description of the research task (lines 188 to 199).\<close>

definition research_description :: "pystr \<Rightarrow> options \<Rightarrow> pystr" where
  "research_description topic opts =
     ustr ''Research the latest developments, trends, and insights about '' @
     topic @
     ustr (''.\<newline>'' @
       ''            \<newline>'' @
       ''            Your research should include:\<newline>'' @
       ''            1. Recent news and developments (last 7 days preferred)\<newline>'' @
       ''            2. Expert opinions and quotes\<newline>'' @
       ''            3. Statistics and data points\<newline>'' @
       ''            4. Industry trends and analysis\<newline>'' @
       ''            5. Multiple credible sources\<newline>'' @
       ''            \<newline>'' @
       ''            '') @
     style_instructions opts @
     ustr (''\<newline>'' @
       ''            \<newline>'' @
       ''            Provide a comprehensive summary with all sources.'')"

text \<open>
  The description of the writing task (lines 206 to 221). Its replacement fields are
  evaluated from left to right, and the first that raises ends the evaluation.
\<close>

definition writing_description :: "env \<Rightarrow> pystr \<Rightarrow> options \<Rightarrow> exn + pystr" where
  "writing_description e topic opts =
     (case lower_method e (tone opts) of
        Inl x \<Rightarrow> Inl x
      | Inr tone_lower \<Rightarrow>
     (case approximate_length (length_opt opts) of
        Inl x \<Rightarrow> Inl x
      | Inr words \<Rightarrow>
     (case lower_method e (focus opts) of
        Inl x \<Rightarrow> Inl x
      | Inr focus_lower \<Rightarrow>
          Inr (ustr ''Using the research provided, create a compelling newsletter about '' @
               topic @
               ustr (''.\<newline>'' @
                 ''            \<newline>'' @
                 ''            '') @
               style_instructions opts @
               ustr (''\<newline>'' @
                 ''            \<newline>'' @
                 ''            Use this structure:\<newline>'' @
                 ''            '') @
               py_str (selected_template opts) @
               ustr (''\<newline>'' @
                 ''            \<newline>'' @
                 ''            Guidelines:\<newline>'' @
                 ''            - Use markdown formatting\<newline>'' @
                 ''            - Include specific quotes and data\<newline>'' @
                 ''            - Keep it engaging and accessible\<newline>'' @
                 ''            - Cite all sources properly with links\<newline>'' @
                 ''            - Make section titles specific to the topic\<newline>'' @
                 ''            - Match the '') @
               tone_lower @
               ustr ('' tone throughout\<newline>'' @
                 ''            - Aim for approximately '') @
               words @
               ustr (''\<newline>'' @
                 ''            - Focus on '') @
               focus_lower @
               ustr '' content''))))"

text \<open>
  The body of the \<^verbatim>\<open>try\<close> block (lines 186 to 235): the external calls in the
  order of the source, each entered in the log of calls, the first exception ending
  the block. The result is the exception, or \<^verbatim>\<open>str(result)\<close>.
\<close>

definition crew_run ::
  "env \<Rightarrow> pystr \<Rightarrow> options \<Rightarrow> ext_call list \<Rightarrow> (exn + pystr) \<times> ext_call list" where
  "crew_run e topic opts log =
     (let research_task =
            New_Task (ustr ''Newsletter Research Specialist'') (research_description topic opts)
              (ustr ''A detailed research report with sources'');
          log1 = log @ [research_task]
      in case raises e log research_task of
           Some x \<Rightarrow> (Inl x, log1)
         | None \<Rightarrow>
      (case writing_description e topic opts of
           Inl x \<Rightarrow> (Inl x, log1)
         | Inr description \<Rightarrow>
      (let writing_task =
            New_Task (ustr ''Newsletter Content Writer'') description
              (ustr ''A complete, well-formatted newsletter in markdown'');
          log2 = log1 @ [writing_task]
      in case raises e log1 writing_task of
           Some x \<Rightarrow> (Inl x, log2)
         | None \<Rightarrow>
      (let log3 = log2 @ [New_Crew]
      in case raises e log2 New_Crew of
           Some x \<Rightarrow> (Inl x, log3)
         | None \<Rightarrow>
      (let log4 = log3 @ [Kickoff topic]
      in case raises e log3 (Kickoff topic) of
           Some x \<Rightarrow> (Inl x, log4)
         | None \<Rightarrow> (Inr (kickoff_output e log4), log4))))))"

text \<open>
  The dictionary \<^verbatim>\<open>NewsletterGenerator\<close> returns. The key \<^verbatim>\<open>"customization"\<close> is
  there on success only.
\<close>

record gen_result =
  content :: pystr
  status :: pystr
  customization_entry :: "pydict option"

definition NewsletterGenerator ::
  "env \<Rightarrow> pystr \<Rightarrow> pydict option \<Rightarrow> ext_call list \<Rightarrow> gen_result \<times> ext_call list" where
  "NewsletterGenerator e topic customization log =
     (let customization = customization_or_empty customization;
          opts = extract_options customization
      in case crew_run e topic opts log of
           (Inr result, log') \<Rightarrow>
             (\<lparr> content = result, status = ustr ''success'',
                customization_entry = Some customization \<rparr>, log')
         | (Inl x, log') \<Rightarrow>
             (\<lparr> content = ustr ''Error generating newsletter: '' @ exn_str x,
                status = ustr ''error'', customization_entry = None \<rparr>, log'))"


section \<open>App.py: the page\<close>

text \<open>
  Streamlit runs the script from top to bottom once for every interaction. The model
  of a run takes the state of the widgets, the environment and the clock as inputs,
  passes the session state and the log of external calls through, and returns the
  elements the run puts on the page. The elements that carry text or data are
  modelled; titles, dividers, columns and the footer are layout only and left out.
  The import of line 2 is taken to have succeeded: \<^verbatim>\<open>Main.py\<close> raises at its first
  import when a key is missing (lines 13 to 16), and a run starts behind that.
\<close>

datatype element =
    St_error pystr
  | St_warning pystr
  | St_success pystr
  | St_info pystr
  | St_caption pystr
  | St_subheader pystr
  | St_text pystr
  | St_markdown pystr
  | St_code pystr
  | St_progress nat
  | St_spinner pystr
  | St_tabs "pystr list"
  | St_metric pystr pystr
  | St_download_button pystr pystr pystr pystr
  | St_expander pystr
  | St_button pystr "pystr option"

text \<open>
  An entry of \<^verbatim>\<open>st.session_state.newsletter_history\<close>. The entries of \<^verbatim>\<open>app.py\<close>
  have no key \<^verbatim>\<open>"customization"\<close>.
\<close>

record history_entry =
  h_topic :: pystr
  h_content :: pystr
  h_timestamp :: pystr
  h_customization :: "pydict option"

record session =
  newsletter_history :: "history_entry list"
  loaded_newsletter :: "history_entry option"
  example_topic :: "pystr option"

text \<open>Lines 15 and 16: a new session starts with an empty history.\<close>

definition new_session :: session where
  "new_session = \<lparr> newsletter_history = [], loaded_newsletter = None, example_topic = None \<rparr>"

datatype button =
    Load_button nat
  | Example_AI
  | Example_Climate
  | Example_Business
  | Generate_button

text \<open>
  The inputs of one run: the button that was pressed, if any; the values of the
  widgets; \<^verbatim>\<open>os.getenv\<close>; and \<^verbatim>\<open>datetime.now().strftime("%Y-%m-%d %H:%M")\<close>.
\<close>

record inputs =
  pressed :: "button option"
  topic_input :: pystr
  tone_select :: pystr
  length_select :: pystr
  focus_select :: pystr
  images_checkbox :: bool
  cta_checkbox :: bool
  stats_checkbox :: bool
  quotes_checkbox :: bool
  template_radio :: pystr
  custom_sections_area :: pystr
  getenv :: "pystr \<Rightarrow> pystr option"
  now :: pystr

text \<open>The options of the select boxes of \<^verbatim>\<open>App.py\<close> (lines 111 to 130).\<close>

definition tone_options :: "pystr list" where
  "tone_options =
     [ustr ''Professional'', ustr ''Casual'', ustr ''Technical'', ustr ''Inspirational'',
      ustr ''Humorous'']"

definition length_options :: "pystr list" where
  "length_options =
     [ustr ''Short (500 words)'', ustr ''Medium (1000 words)'', ustr ''Long (1500+ words)'']"

definition focus_options :: "pystr list" where
  "focus_options =
     [ustr ''Balanced'', ustr ''News-heavy'', ustr ''Analysis-heavy'', ustr ''Tutorial-style'']"

text \<open>The truth value of what \<^verbatim>\<open>os.getenv\<close> returns.\<close>

definition env_truthy :: "pystr option \<Rightarrow> bool" where
  "env_truthy v = (case v of None \<Rightarrow> False | Some s \<Rightarrow> s \<noteq> [])"

definition keys_configured :: "inputs \<Rightarrow> bool" where
  "keys_configured i \<longleftrightarrow>
     env_truthy (getenv i (ustr ''GROQ_API_KEY'')) \<and> env_truthy (getenv i (ustr ''SERPER_API_KEY''))"

subsection \<open>The sidebar\<close>

text \<open>\<^verbatim>\<open>reversed(st.session_state.newsletter_history[-5:])\<close>\<close>

definition sidebar_items :: "history_entry list \<Rightarrow> history_entry list" where
  "sidebar_items h = rev (drop (length h - 5) h)"

definition App_sidebar_keys :: "inputs \<Rightarrow> element list" where
  "App_sidebar_keys i =
     (if keys_configured i then [St_success ([9989] @ ustr '' API keys configured!'')]
      else [St_warning ([9888, 65039] @ ustr '' Please add API keys to Streamlit secrets''),
            St_info (ustr (''\<newline>'' @
                       ''        Go to: Settings '') @
                     [8594] @
                     ustr ('' Secrets  \<newline>'' @
                       ''        Add:\<newline>'' @
                       ''        ```\<newline>'' @
                       ''        GROQ_API_KEY = \"your_key\"\<newline>'' @
                       ''        SERPER_API_KEY = \"your_key\"\<newline>'' @
                       ''        ```\<newline>'' @
                       ''        ''))])"

definition App_sidebar_history :: "session \<Rightarrow> element list" where
  "App_sidebar_history s =
     St_subheader ([128218] @ ustr '' History'') #
     (if newsletter_history s \<noteq> [] then
        St_caption (ustr ''Generated: '' @ decimal (length (newsletter_history s)) @
                    ustr '' newsletters'') #
        concat (map (\<lambda>(idx, item).
            [St_expander ([128196] @ ustr '' '' @ take 30 (h_topic item) @ ustr ''...''),
             St_caption (ustr ''Created: '' @ h_timestamp item),
             St_button (ustr ''Load'') (Some (ustr ''load_'' @ decimal idx))])
          (enumerate 0 (sidebar_items (newsletter_history s))))
      else [St_caption (ustr ''No history yet'')])"

subsection \<open>The analytics and the downloads\<close>

definition word_count :: "pystr \<Rightarrow> nat" where
  "word_count c = length (py_split c)"

definition char_count :: "pystr \<Rightarrow> nat" where
  "char_count c = length c"

definition reading_time :: "pystr \<Rightarrow> nat" where
  "reading_time c = word_count c div 200"

definition section_count :: "pystr \<Rightarrow> nat" where
  "section_count c = py_count c (ustr ''##'')"

definition has_headers :: "pystr \<Rightarrow> bool" where
  "has_headers c \<longleftrightarrow> py_count c (ustr ''#'') > 3"

definition has_links :: "pystr \<Rightarrow> bool" where
  "has_links c \<longleftrightarrow> py_in (ustr ''['') c \<and> py_in (ustr '']('') c"

definition good_length :: "pystr \<Rightarrow> bool" where
  "good_length c \<longleftrightarrow> 500 < word_count c \<and> word_count c < 2000"

definition file_name :: "pystr \<Rightarrow> pystr \<Rightarrow> pystr" where
  "file_name topic ext = ustr ''newsletter_'' @ py_replace topic (ustr '' '') (ustr ''_'') @ ext"

text \<open>Line 271: the body of the HTML page.\<close>

definition html_body :: "pystr \<Rightarrow> pystr" where
  "html_body c =
     py_replace
       (py_replace
          (py_replace c (ustr ''#'') (ustr ''<h1>''))
          (ustr ''##'') (ustr ''</h1><h2>''))
       (ustr ''\<newline>'') (ustr ''<br>'')"

text \<open>
  Lines 258 to 274: the f-string \<^verbatim>\<open>html_content\<close>, which is the text before the
  body, the body, and the text behind it.
\<close>

definition html_head :: pystr where
  "html_head =
     ustr (''\<newline>'' @
       ''                        <!DOCTYPE html>\<newline>'' @
       ''                        <html>\<newline>'' @
       ''                        <head>\<newline>'' @
       ''                            <meta charset=\"utf-8\">\<newline>'' @
       ''                            <style>\<newline>'' @
       ''                                body { font-family: Arial, sans-serif; max-width: 600px; margin: 0 auto; padding: 20px; }\<newline>'' @
       ''                                h1 { color: #333; }\<newline>'' @
       ''                                h2 { color: #666; border-bottom: 2px solid #eee; padding-bottom: 10px; }\<newline>'' @
       ''                                a { color: #0066cc; }\<newline>'' @
       ''                            </style>\<newline>'' @
       ''                        </head>\<newline>'' @
       ''                        <body>\<newline>'' @
       ''                            '')"

definition html_tail :: pystr where
  "html_tail =
     ustr (''\<newline>'' @
       ''                        </body>\<newline>'' @
       ''                        </html>\<newline>'' @
       ''                        '')"

definition html_content :: "pystr \<Rightarrow> pystr" where
  "html_content c = html_head @ html_body c @ html_tail"

text \<open>Line 285 (and line 146 of \<^verbatim>\<open>app.py\<close>).\<close>

definition plain_text :: "pystr \<Rightarrow> pystr" where
  "plain_text c = py_replace (py_replace c (ustr ''#'') (ustr [])) (ustr ''*'') (ustr [])"

definition mark :: "bool \<Rightarrow> pystr" where
  "mark ok = (if ok then [9989] else [9888, 65039])"

text \<open>What the success branch shows for the content \<open>c\<close> (lines 211 to 306).\<close>

definition App_result_page :: "pystr \<Rightarrow> pystr \<Rightarrow> element list" where
  "App_result_page topic c =
     [ St_tabs [[128240] @ ustr '' Preview'', [128221] @ ustr '' Markdown'',
                [128202] @ ustr '' Analytics''],
       St_markdown c,
       St_code c,
       St_metric (ustr ''Word Count'') (thousands (word_count c)),
       St_metric (ustr ''Characters'') (thousands (char_count c)),
       St_metric (ustr ''Reading Time'') (decimal (reading_time c) @ ustr '' min''),
       St_metric (ustr ''Sections'') (decimal (section_count c)),
       St_subheader ([128200] @ ustr '' Content Quality Metrics''),
       St_metric (ustr ''Headers'') (mark (has_headers c)),
       St_metric (ustr ''External Links'') (mark (has_links c)),
       St_metric (ustr ''Length'') (mark (good_length c)),
       St_download_button ([128229] @ ustr '' Download Markdown'') c
         (file_name topic (ustr ''.md'')) (ustr ''text/markdown''),
       St_download_button ([128231] @ ustr '' Download HTML'') (html_content c)
         (file_name topic (ustr ''.html'')) (ustr ''text/html''),
       St_download_button ([128196] @ ustr '' Download TXT'') (plain_text c)
         (file_name topic (ustr ''.txt'')) (ustr ''text/plain''),
       St_subheader ([128279] @ ustr '' Share Your Newsletter''),
       St_button ([128203] @ ustr '' Copy to Clipboard'') None,
       St_button ([9993, 65039] @ ustr '' Email Template'') None ]"

subsection \<open>The Generate button\<close>

text \<open>Lines 170 to 180.\<close>

definition App_customization :: "inputs \<Rightarrow> pydict" where
  "App_customization i =
     map_of
       [ (ustr ''tone'', PStr (tone_select i)),
         (ustr ''length'', PStr (length_select i)),
         (ustr ''focus'', PStr (focus_select i)),
         (ustr ''include_images'', PBool (images_checkbox i)),
         (ustr ''include_cta'', PBool (cta_checkbox i)),
         (ustr ''include_stats'', PBool (stats_checkbox i)),
         (ustr ''include_quotes'', PBool (quotes_checkbox i)),
         (ustr ''template'', PStr (template_radio i)),
         (ustr ''custom_sections'',
            (if template_radio i = ustr ''Custom'' then PStr (custom_sections_area i)
             else PNone)) ]"

text \<open>
  Lines 163 to 319. \<^verbatim>\<open>NewsletterGenerator\<close> catches what its \<^verbatim>\<open>try\<close> block
  raises, so the \<^verbatim>\<open>except\<close> branch of the page (lines 312 to 319) has no run in
  this model.
\<close>

definition App_generate ::
  "env \<Rightarrow> inputs \<Rightarrow> session \<times> ext_call list \<Rightarrow> (session \<times> ext_call list) \<times> element list" where
  "App_generate e i st =
     (case st of (s, log) \<Rightarrow>
      if topic_input i = [] then
        (st, [St_error ([9888, 65039] @ ustr '' Please enter a topic!'')])
      else if \<not> keys_configured i then
        (st, [St_error ([9888, 65039] @ ustr '' Please configure API keys in Streamlit secrets!'')])
      else
        (case NewsletterGenerator e (topic_input i) (Some (App_customization i)) log of
           (result, log') \<Rightarrow>
             if status result = ustr ''success'' then
               ((s\<lparr> newsletter_history := newsletter_history s @
                      [\<lparr> h_topic = topic_input i, h_content = content result,
                         h_timestamp = now i,
                         h_customization = Some (App_customization i) \<rparr>] \<rparr>, log'),
                [ St_spinner ([129302] @
                    ustr '' AI agents are researching and writing your newsletter...''),
                  St_progress 0,
                  St_text ([128269] @ ustr '' Researching latest information...''),
                  St_progress 25,
                  St_text ([9997, 65039] @ ustr '' Writing newsletter content...''),
                  St_progress 75,
                  St_progress 100,
                  St_text ([9989] @ ustr '' Newsletter generated successfully!'') ] @
                App_result_page (topic_input i) (content result))
             else
               ((s, log'),
                [ St_spinner ([129302] @
                    ustr '' AI agents are researching and writing your newsletter...''),
                  St_progress 0,
                  St_text ([128269] @ ustr '' Researching latest information...''),
                  St_progress 25,
                  St_text ([9997, 65039] @ ustr '' Writing newsletter content...''),
                  St_progress 75,
                  St_progress 100,
                  St_error ([10060] @ ustr '' Error: '' @ content result) ])))"

subsection \<open>One run of the script\<close>

text \<open>Lines 84 to 94: an example button stores its topic in the session.\<close>

definition App_examples :: "inputs \<Rightarrow> session \<Rightarrow> session" where
  "App_examples i s =
     (case pressed i of
        Some Example_AI \<Rightarrow>
          s\<lparr> example_topic := Some (ustr ''Latest developments in AI and machine learning'') \<rparr>
      | Some Example_Climate \<Rightarrow>
          s\<lparr> example_topic := Some (ustr ''Recent climate tech innovations and green energy'') \<rparr>
      | Some Example_Business \<Rightarrow>
          s\<lparr> example_topic := Some (ustr ''Startup funding trends and unicorn companies'') \<rparr>
      | _ \<Rightarrow> s)"

text \<open>A run in which no Load button is pressed: the sidebar, the examples, the form.\<close>

definition App_script ::
  "env \<Rightarrow> inputs \<Rightarrow> session \<times> ext_call list \<Rightarrow> (session \<times> ext_call list) \<times> element list" where
  "App_script e i st =
     (case st of (s, log) \<Rightarrow>
      let side = App_sidebar_keys i @ App_sidebar_history s;
          s1 = App_examples i s
      in if pressed i = Some Generate_button then
           (case App_generate e i (s1, log) of (st', page) \<Rightarrow> (st', side @ page))
         else ((s1, log), side))"

text \<open>
  A Load button (lines 71 to 73) stores its entry and calls \<^verbatim>\<open>st.rerun()\<close>, which
  abandons the run and starts the script again with no button pressed. There are as
  many Load buttons as the sidebar shows entries.
\<close>

definition App_run ::
  "env \<Rightarrow> inputs \<Rightarrow> session \<times> ext_call list \<Rightarrow> (session \<times> ext_call list) \<times> element list" where
  "App_run e i st =
     (case st of (s, log) \<Rightarrow>
      case pressed i of
        Some (Load_button idx) \<Rightarrow>
          (if idx < length (sidebar_items (newsletter_history s)) then
             App_script e (i\<lparr> pressed := None \<rparr>)
               (s\<lparr> loaded_newsletter := Some (sidebar_items (newsletter_history s) ! idx) \<rparr>, log)
           else App_script e (i\<lparr> pressed := None \<rparr>) st)
      | _ \<Rightarrow> App_script e i st)"

text \<open>A session: the runs of the script, one after the other.\<close>

fun App_session ::
  "env \<Rightarrow> inputs list \<Rightarrow> session \<times> ext_call list \<Rightarrow> session \<times> ext_call list" where
  "App_session e [] st = st"
| "App_session e (i # is) st = App_session e is (fst (App_run e i st))"


section \<open>app.py: the shorter page\<close>

text \<open>
  \<^verbatim>\<open>app.py\<close> has the same form with three options, no sidebar history, and two
  downloads. It reads the two keys once per run (lines 34 and 35).
\<close>

definition app_customization :: "inputs \<Rightarrow> pydict" where
  "app_customization i =
     map_of
       [ (ustr ''tone'', PStr (tone_select i)),
         (ustr ''length'', PStr (length_select i)),
         (ustr ''focus'', PStr (focus_select i)) ]"

definition app_result_page :: "pystr \<Rightarrow> pystr \<Rightarrow> element list" where
  "app_result_page topic c =
     [ St_tabs [[128240] @ ustr '' Preview'', [128221] @ ustr '' Markdown''],
       St_markdown c,
       St_code c,
       St_download_button ([128229] @ ustr '' Download Markdown'') c
         (file_name topic (ustr ''.md'')) (ustr ''text/markdown''),
       St_download_button ([128196] @ ustr '' Download Text'') (plain_text c)
         (file_name topic (ustr ''.txt'')) (ustr ''text/plain'') ]"

definition app_generate ::
  "env \<Rightarrow> inputs \<Rightarrow> session \<times> ext_call list \<Rightarrow> (session \<times> ext_call list) \<times> element list" where
  "app_generate e i st =
     (case st of (s, log) \<Rightarrow>
      if topic_input i = [] then
        (st, [St_error ([9888, 65039] @ ustr '' Please enter a topic!'')])
      else if \<not> keys_configured i then
        (st, [St_error ([9888, 65039] @ ustr '' Please configure API keys!'')])
      else
        (case NewsletterGenerator e (topic_input i) (Some (app_customization i)) log of
           (result, log') \<Rightarrow>
             if status result = ustr ''success'' then
               ((s\<lparr> newsletter_history := newsletter_history s @
                      [\<lparr> h_topic = topic_input i, h_content = content result,
                         h_timestamp = now i, h_customization = None \<rparr>] \<rparr>, log'),
                [ St_progress 0,
                  St_text ([128269] @ ustr '' Researching...''),
                  St_progress 25,
                  St_text ([9997, 65039] @ ustr '' Writing...''),
                  St_progress 75,
                  St_progress 100,
                  St_text ([9989] @ ustr '' Complete!'') ] @
                app_result_page (topic_input i) (content result))
             else
               ((s, log'),
                [ St_progress 0,
                  St_text ([128269] @ ustr '' Researching...''),
                  St_progress 25,
                  St_text ([9997, 65039] @ ustr '' Writing...''),
                  St_progress 75,
                  St_error ([10060] @ ustr '' Error: '' @ content result) ])))"


text \<open>Lines 37 to 40, and lines 49 to 58: the key status and the example buttons.\<close>

definition app_sidebar_keys :: "inputs \<Rightarrow> element list" where
  "app_sidebar_keys i =
     (if keys_configured i then [St_success ([9989] @ ustr '' API keys configured!'')]
      else [St_warning ([9888, 65039] @ ustr '' Add API keys in Settings '' @ [8594] @
                        ustr '' Secrets'')])"

definition app_examples :: "inputs \<Rightarrow> session \<Rightarrow> session" where
  "app_examples i s =
     (case pressed i of
        Some Example_AI \<Rightarrow> s\<lparr> example_topic := Some (ustr ''Latest AI developments'') \<rparr>
      | Some Example_Climate \<Rightarrow> s\<lparr> example_topic := Some (ustr ''Climate tech innovations'') \<rparr>
      | Some Example_Business \<Rightarrow> s\<lparr> example_topic := Some (ustr ''Startup funding trends'') \<rparr>
      | _ \<Rightarrow> s)"

definition app_run ::
  "env \<Rightarrow> inputs \<Rightarrow> session \<times> ext_call list \<Rightarrow> (session \<times> ext_call list) \<times> element list" where
  "app_run e i st =
     (case st of (s, log) \<Rightarrow>
      let side = app_sidebar_keys i;
          s1 = app_examples i s
      in if pressed i = Some Generate_button then
           (case app_generate e i (s1, log) of (st', page) \<Rightarrow> (st', side @ page))
         else ((s1, log), side))"


section \<open>The notions the properties are stated with\<close>

text \<open>
  The number of whitespace-delimited tokens of a string: the number of characters
  that are not whitespace and stand at the start of the string or behind a
  whitespace character. The flag says whether the position before is such a place.
\<close>

fun tokens_after :: "bool \<Rightarrow> pystr \<Rightarrow> nat" where
  "tokens_after sp [] = 0"
| "tokens_after sp (c # s) =
     (if sp \<and> \<not> py_isspace c then 1 else 0) + tokens_after (py_isspace c) s"

definition token_count :: "pystr \<Rightarrow> nat" where
  "token_count s = tokens_after True s"

text \<open>
  The number of occurrences of \<open>[a, a]\<close> that do not overlap: every maximal run of
  \<open>k\<close> consecutive \<open>a\<close> holds \<open>k div 2\<close> of them. The number \<open>r\<close> is the length of
  the run that ends before the string.
\<close>

fun run_pairs :: "'a \<Rightarrow> nat \<Rightarrow> 'a list \<Rightarrow> nat" where
  "run_pairs a r [] = r div 2"
| "run_pairs a r (c # s) =
     (if c = a then run_pairs a (Suc r) s else r div 2 + run_pairs a 0 s)"

text \<open>
  The external calls of a request that runs to its end: the two task constructors
  (\<open>d\<close> is the description of the writing task), the crew constructor and the
  kickoff, in the order of lines 187 to 235.
\<close>

definition research_task :: "pystr \<Rightarrow> options \<Rightarrow> ext_call" where
  "research_task topic opts =
     New_Task (ustr ''Newsletter Research Specialist'') (research_description topic opts)
       (ustr ''A detailed research report with sources'')"

definition writing_task :: "pystr \<Rightarrow> ext_call" where
  "writing_task d =
     New_Task (ustr ''Newsletter Content Writer'') d
       (ustr ''A complete, well-formatted newsletter in markdown'')"

definition request_calls :: "pystr \<Rightarrow> options \<Rightarrow> pystr \<Rightarrow> ext_call list" where
  "request_calls topic opts d =
     [research_task topic opts, writing_task d, New_Crew, Kickoff topic]"

text \<open>Made one after the other behind the calls of the log, none of the calls raises.\<close>

fun none_raises :: "env \<Rightarrow> ext_call list \<Rightarrow> ext_call list \<Rightarrow> bool" where
  "none_raises e log [] = True"
| "none_raises e log (c # cs) = (raises e log c = None \<and> none_raises e (log @ [c]) cs)"

text \<open>The dictionary returned for the exception \<open>x\<close> (lines 242 to 246).\<close>

definition error_dict :: "exn \<Rightarrow> gen_result" where
  "error_dict x =
     \<lparr> content = ustr ''Error generating newsletter: '' @ exn_str x,
       status = ustr ''error'', customization_entry = None \<rparr>"

text \<open>
  A run of \<^verbatim>\<open>App.py\<close> is a successful generation when the Generate button was
  pressed, the topic is not empty, both keys are set, and \<^verbatim>\<open>NewsletterGenerator\<close>
  returns the status \<^verbatim>\<open>"success"\<close>; this is the entry it stands for.
\<close>

definition successful_generation ::
  "env \<Rightarrow> inputs \<Rightarrow> ext_call list \<Rightarrow> history_entry option" where
  "successful_generation e i log =
     (if pressed i = Some Generate_button \<and> topic_input i \<noteq> [] \<and> keys_configured i \<and>
         status (fst (NewsletterGenerator e (topic_input i) (Some (App_customization i)) log))
           = ustr ''success''
      then Some \<lparr> h_topic = topic_input i,
                  h_content =
                    content (fst (NewsletterGenerator e (topic_input i)
                                    (Some (App_customization i)) log)),
                  h_timestamp = now i,
                  h_customization = Some (App_customization i) \<rparr>
      else None)"

text \<open>The successful generations of a session, in the order of the runs.\<close>

fun successful_generations ::
  "env \<Rightarrow> inputs list \<Rightarrow> session \<times> ext_call list \<Rightarrow> history_entry list" where
  "successful_generations e [] st = []"
| "successful_generations e (i # is) st =
     (case successful_generation e i (snd st) of None \<Rightarrow> [] | Some entry \<Rightarrow> [entry]) @
     successful_generations e is (fst (App_run e i st))"


section \<open>Sample inputs\<close>

text \<open>
  Concrete inputs on which the properties below are run: a lower-casing of the ASCII
  letters in the place of \<^verbatim>\<open>str.lower\<close>, a framework that answers every call, one
  whose kickoff raises, and a filled form with both keys set.
\<close>

definition ascii_lower :: "pystr \<Rightarrow> pystr" where
  "ascii_lower s = map (\<lambda>c. if 65 \<le> c \<and> c \<le> 90 then c + 32 else c) s"

definition answering_env :: "pystr \<Rightarrow> env" where
  "answering_env out =
     \<lparr> str_lower = ascii_lower, raises = (\<lambda>log c. None), kickoff_output = (\<lambda>log. out) \<rparr>"

definition failing_env :: "pystr \<Rightarrow> env" where
  "failing_env msg =
     \<lparr> str_lower = ascii_lower,
       raises = (\<lambda>log c. case c of Kickoff t \<Rightarrow> Some (FrameworkError msg) | _ \<Rightarrow> None),
       kickoff_output = (\<lambda>log. []) \<rparr>"

definition sample_inputs :: inputs where
  "sample_inputs =
     \<lparr> pressed = Some Generate_button,
       topic_input = ustr ''Climate tech'',
       tone_select = ustr ''Professional'',
       length_select = ustr ''Medium (1000 words)'',
       focus_select = ustr ''Balanced'',
       images_checkbox = True,
       cta_checkbox = True,
       stats_checkbox = True,
       quotes_checkbox = True,
       template_radio = ustr ''Standard'',
       custom_sections_area =
         ustr ''Welcome\<newline>Main Story\<newline>Featured Content\<newline>Quick Updates\<newline>Sources'',
       getenv = map_of [(ustr ''GROQ_API_KEY'', ustr ''gsk_1''), (ustr ''SERPER_API_KEY'', ustr ''s_1'')],
       now = ustr ''2025-01-15 10:30'' \<rparr>"

definition sample_newsletter :: pystr where
  "sample_newsletter =
     ustr (''# Climate tech this week\<newline>'' @
       ''\<newline>'' @
       ''## Welcome\<newline>'' @
       ''Heat pumps are **booming**.\<newline>'' @
       ''### Sources\<newline>'' @
       ''[IEA](https://www.iea.org)'')"


section \<open>Lemmas on the string methods\<close>

declare py_replace.simps [simp del] py_count.simps [simp del] py_split.simps [simp del]
  decimal.simps [simp del] thousands.simps [simp del]

lemma ustr_Nil [simp]: "ustr [] = []" by (simp add: ustr_def)
lemma ustr_Cons [simp]: "ustr (c # cs) = of_char c # ustr cs" by (simp add: ustr_def)

lemma py_replace_Nil: "old \<noteq> [] \<Longrightarrow> py_replace [] old new = []"
  by (simp add: py_replace.simps)

lemma py_replace_char:
  "py_replace s [a] new = concat (map (\<lambda>x. if x = a then new else [x]) s)"
proof (induction s)
  case Nil
  show ?case by (simp add: py_replace.simps)
next
  case (Cons c s)
  show ?case
    using Cons.IH by (subst py_replace.simps) auto
qed

lemma py_replace_absent: "a \<notin> set s \<Longrightarrow> py_replace s (a # r) new = s"
proof (induction s)
  case Nil
  show ?case by (simp add: py_replace.simps)
next
  case (Cons c s)
  then show ?case by (subst py_replace.simps) auto
qed

lemma concat_map_concat_map:
  "concat (map g (concat (map f s))) = concat (map (\<lambda>x. concat (map g (f x))) s)"
  by (induction s) simp_all

lemma remove_char: "concat (map (\<lambda>x. if x = a then [] else [x]) s) = filter (\<lambda>x. x \<noteq> a) s"
  by (induction s) simp_all

lemma plain_text_filter:
  "plain_text c = filter (\<lambda>x. x \<noteq> of_char CHR ''#'' \<and> x \<noteq> of_char CHR ''*'') c"
  by (simp add: plain_text_def py_replace_char remove_char conj_commute)

lemma html_body_subst:
  "html_body c =
     concat (map (\<lambda>x. if x = of_char CHR ''#'' then ustr ''<h1>''
                       else if x = of_char CHR 0x0A then ustr ''<br>'' else [x]) c)"
proof -
  let ?h = "concat (map (\<lambda>x. if x = of_char CHR ''#'' then ustr ''<h1>'' else [x]) c)"
  have 1: "py_replace c (ustr ''#'') (ustr ''<h1>'') = ?h"
    by (simp add: py_replace_char cong: if_cong)
  have "of_char CHR ''#'' \<notin> set ?h" by (induction c) auto
  then have 2: "py_replace ?h (ustr ''##'') (ustr ''</h1><h2>'') = ?h"
    by (simp add: py_replace_absent)
  have 3: "py_replace ?h (ustr ''\<newline>'') (ustr ''<br>'')
         = concat (map (\<lambda>x. if x = of_char CHR ''#'' then ustr ''<h1>''
                       else if x = of_char CHR 0x0A then ustr ''<br>'' else [x]) c)"
    unfolding ustr_Cons ustr_Nil py_replace_char concat_map_concat_map
    by (rule arg_cong [where f = concat], rule map_cong) auto
  show ?thesis unfolding html_body_def 1 2 3 ..
qed

lemma py_count_pair_Nil: "py_count [] [a, a] = 0" by (simp add: py_count.simps)
lemma py_count_pair_other: "c \<noteq> a \<Longrightarrow> py_count (c # s) [a, a] = py_count s [a, a]"
  by (subst py_count.simps) simp
lemma py_count_pair_single: "s = [] \<or> hd s \<noteq> a \<Longrightarrow> py_count (a # s) [a, a] = py_count s [a, a]"
  by (subst py_count.simps) (cases s; auto)
lemma py_count_pair_pair: "py_count (a # a # s) [a, a] = Suc (py_count s [a, a])"
  by (subst py_count.simps) simp

lemma py_count_run:
  "s = [] \<or> hd s \<noteq> a \<Longrightarrow> py_count (replicate r a @ s) [a, a] = r div 2 + py_count s [a, a]"
proof (induction r rule: less_induct)
  case (less r)
  show ?case
  proof (cases r)
    case 0
    then show ?thesis by simp
  next
    case (Suc m)
    show ?thesis
    proof (cases m)
      case 0
      with Suc less.prems show ?thesis by (simp add: py_count_pair_single)
    next
      case (Suc k)
      with \<open>r = Suc m\<close> have r: "r = Suc (Suc k)" by simp
      then have "py_count (replicate k a @ s) [a, a] = k div 2 + py_count s [a, a]"
        using less.IH [of k] less.prems by simp
      with r show ?thesis by (simp add: py_count_pair_pair)
    qed
  qed
qed

lemma py_count_run_pairs: "py_count (replicate r a @ s) [a, a] = run_pairs a r s"
proof (induction s arbitrary: r)
  case Nil
  show ?case using py_count_run [of "[]" a r] by (simp add: py_count_pair_Nil)
next
  case (Cons c s)
  show ?case
  proof (cases "c = a")
    case True
    then show ?thesis using Cons.IH [of "Suc r"] by (simp add: replicate_app_Cons_same)
  next
    case False
    then have "py_count (replicate r a @ c # s) [a, a] = r div 2 + py_count (c # s) [a, a]"
      by (intro py_count_run) simp
    with False show ?thesis using Cons.IH [of 0] by (simp add: py_count_pair_other)
  qed
qed

lemma tokens_skip_space: "tokens_after True (dropWhile py_isspace s) = tokens_after True s"
  by (induction s) simp_all

lemma tokens_skip_word:
  "tokens_after True (dropWhile (\<lambda>x. \<not> py_isspace x) s) = tokens_after False s"
  by (induction s) simp_all

lemma length_py_split: "length (py_split s) = tokens_after True s"
proof (induction s rule: py_split.induct)
  case (1 s)
  show ?case
  proof (cases "dropWhile py_isspace s")
    case Nil
    have "tokens_after True s = tokens_after True (dropWhile py_isspace s)"
      by (simp only: tokens_skip_space)
    also have "\<dots> = 0" unfolding Nil by simp
    finally have "tokens_after True s = 0" .
    moreover have "py_split s = []"
      by (subst py_split.simps) (simp only: Nil list.case)
    ultimately show ?thesis by simp
  next
    case (Cons c r)
    then have c: "\<not> py_isspace c"
      using hd_dropWhile [of py_isspace s] by simp
    have "tokens_after True s = tokens_after True (c # r)"
      using tokens_skip_space [of s] Cons by simp
    also have "\<dots> = Suc (tokens_after False r)" using c by simp
    also have "\<dots> = Suc (length (py_split (dropWhile (\<lambda>x. \<not> py_isspace x) r)))"
      using "1.IH" [OF Cons] by (simp add: tokens_skip_word)
    finally show ?thesis using Cons by (subst py_split.simps) simp
  qed
qed


section \<open>Lemmas on the pipeline\<close>

lemma crew_run_log:
  "\<exists>calls. snd (crew_run e topic opts log) = log @ calls \<and> calls \<noteq> [] \<and> distinct calls \<and>
     length calls \<le> 4"
  by (auto simp: crew_run_def Let_def split: option.splits sum.splits)

lemma NewsletterGenerator_log:
  "snd (NewsletterGenerator e topic c log) =
   snd (crew_run e topic (extract_options (customization_or_empty c)) log)"
  by (simp add: NewsletterGenerator_def Let_def split: prod.splits sum.splits)

lemma NewsletterGenerator_success:
  assumes "fst (crew_run e topic (extract_options (customization_or_empty c)) log) = Inr m"
  shows "fst (NewsletterGenerator e topic c log) =
           \<lparr> content = m, status = ustr ''success'',
             customization_entry = Some (customization_or_empty c) \<rparr>"
  using assms by (auto simp: NewsletterGenerator_def Let_def split: prod.splits sum.splits)

lemma NewsletterGenerator_error:
  assumes "fst (crew_run e topic (extract_options (customization_or_empty c)) log) = Inl x"
  shows "fst (NewsletterGenerator e topic c log) =
           \<lparr> content = ustr ''Error generating newsletter: '' @ exn_str x, status = ustr ''error'',
             customization_entry = None \<rparr>"
  using assms by (auto simp: NewsletterGenerator_def Let_def split: prod.splits sum.splits)

lemma status_cases:
  "status (fst (NewsletterGenerator e topic c log)) = ustr ''success'' \<longleftrightarrow>
   (\<exists>m. fst (crew_run e topic (extract_options (customization_or_empty c)) log) = Inr m)"
  by (cases "fst (crew_run e topic (extract_options (customization_or_empty c)) log)")
     (simp_all add: NewsletterGenerator_success NewsletterGenerator_error)


section \<open>Lemmas on the Generate button\<close>

lemma App_customization_or_empty [simp]:
  "customization_or_empty (Some d) = d" "customization_or_empty None = Map.empty"
  by (simp_all add: customization_or_empty_def)

lemma success_not_error: "ustr ''error'' \<noteq> ustr ''success''" by simp

lemma App_generate_blocked:
  assumes "topic_input i = [] \<or> \<not> keys_configured i"
  shows "App_generate e i st =
           (st, [St_error ([9888, 65039] @
                   (if topic_input i = [] then ustr '' Please enter a topic!''
                    else ustr '' Please configure API keys in Streamlit secrets!''))])"
  using assms by (auto simp: App_generate_def split: prod.splits)

lemma app_generate_blocked:
  assumes "topic_input i = [] \<or> \<not> keys_configured i"
  shows "app_generate e i st =
           (st, [St_error ([9888, 65039] @
                   (if topic_input i = [] then ustr '' Please enter a topic!''
                    else ustr '' Please configure API keys!''))])"
  using assms by (auto simp: app_generate_def split: prod.splits)

lemma App_generate_success:
  assumes "topic_input i \<noteq> []" "keys_configured i"
    and "fst (crew_run e (topic_input i) (extract_options (App_customization i)) log) = Inr m"
  shows "fst (fst (App_generate e i (s, log))) =
           s\<lparr> newsletter_history := newsletter_history s @
                 [\<lparr> h_topic = topic_input i, h_content = m, h_timestamp = now i,
                    h_customization = Some (App_customization i) \<rparr>] \<rparr>"
    and "set (App_result_page (topic_input i) m) \<subseteq> set (snd (App_generate e i (s, log)))"
proof -
  have r: "fst (NewsletterGenerator e (topic_input i) (Some (App_customization i)) log) =
        \<lparr> content = m, status = ustr ''success'',
          customization_entry = Some (App_customization i) \<rparr>"
    using NewsletterGenerator_success [of e "topic_input i" "Some (App_customization i)" log m] assms(3)
    by simp
  obtain res log' where n: "NewsletterGenerator e (topic_input i) (Some (App_customization i)) log = (res, log')"
    by (cases "NewsletterGenerator e (topic_input i) (Some (App_customization i)) log")
  with r have res: "res = \<lparr> content = m, status = ustr ''success'',
          customization_entry = Some (App_customization i) \<rparr>" by simp
  show "fst (fst (App_generate e i (s, log))) =
           s\<lparr> newsletter_history := newsletter_history s @
                 [\<lparr> h_topic = topic_input i, h_content = m, h_timestamp = now i,
                    h_customization = Some (App_customization i) \<rparr>] \<rparr>"
    using assms(1,2) by (simp add: App_generate_def n res)
  show "set (App_result_page (topic_input i) m) \<subseteq> set (snd (App_generate e i (s, log)))"
    using assms(1,2) by (auto simp: App_generate_def n res)
qed

lemma App_generate_error:
  assumes "fst (crew_run e (topic_input i) (extract_options (App_customization i)) log) = Inl x"
  shows "fst (fst (App_generate e i (s, log))) = s"
proof -
  have r: "fst (NewsletterGenerator e (topic_input i) (Some (App_customization i)) log) =
        \<lparr> content = ustr ''Error generating newsletter: '' @ exn_str x, status = ustr ''error'',
             customization_entry = None \<rparr>"
    using NewsletterGenerator_error [of e "topic_input i" "Some (App_customization i)" log x] assms
    by simp
  obtain res log' where n: "NewsletterGenerator e (topic_input i) (Some (App_customization i)) log = (res, log')"
    by (cases "NewsletterGenerator e (topic_input i) (Some (App_customization i)) log")
  with r have res: "res = \<lparr> content = ustr ''Error generating newsletter: '' @ exn_str x, status = ustr ''error'',
             customization_entry = None \<rparr>" by simp
  show ?thesis
    by (simp add: App_generate_def n res)
qed

lemma app_generate_success:
  assumes "topic_input i \<noteq> []" "keys_configured i"
    and "fst (crew_run e (topic_input i) (extract_options (app_customization i)) log) = Inr m"
  shows "set (app_result_page (topic_input i) m) \<subseteq> set (snd (app_generate e i (s, log)))"
proof -
  have r: "fst (NewsletterGenerator e (topic_input i) (Some (app_customization i)) log) =
        \<lparr> content = m, status = ustr ''success'',
          customization_entry = Some (app_customization i) \<rparr>"
    using NewsletterGenerator_success [of e "topic_input i" "Some (app_customization i)" log m] assms(3)
    by simp
  obtain res log' where n: "NewsletterGenerator e (topic_input i) (Some (app_customization i)) log = (res, log')"
    by (cases "NewsletterGenerator e (topic_input i) (Some (app_customization i)) log")
  with r have res: "res = \<lparr> content = m, status = ustr ''success'',
          customization_entry = Some (app_customization i) \<rparr>" by simp
  show ?thesis
    using assms(1,2) by (auto simp: app_generate_def n res)
qed

lemma app_generate_error:
  assumes "fst (crew_run e (topic_input i) (extract_options (app_customization i)) log) = Inl x"
  shows "fst (fst (app_generate e i (s, log))) = s"
proof -
  have r: "fst (NewsletterGenerator e (topic_input i) (Some (app_customization i)) log) =
        \<lparr> content = ustr ''Error generating newsletter: '' @ exn_str x, status = ustr ''error'',
             customization_entry = None \<rparr>"
    using NewsletterGenerator_error [of e "topic_input i" "Some (app_customization i)" log x] assms
    by simp
  obtain res log' where n: "NewsletterGenerator e (topic_input i) (Some (app_customization i)) log = (res, log')"
    by (cases "NewsletterGenerator e (topic_input i) (Some (app_customization i)) log")
  with r have res: "res = \<lparr> content = ustr ''Error generating newsletter: '' @ exn_str x, status = ustr ''error'',
             customization_entry = None \<rparr>" by simp
  show ?thesis
    by (simp add: app_generate_def n res)
qed


section \<open>The customization: claims C1, C5, C9 and C10\<close>

lemma occurrences_append_sep:
  assumes "n \<notin> set sub" "sub \<noteq> []"
  shows "occurrences sub (a @ n # b) = occurrences sub a + occurrences sub b"
proof (induction a)
  case Nil
  from assms have "\<not> prefix sub (n # b)" by (cases sub) auto
  then show ?case using assms by simp
next
  case (Cons c a)
  have "prefix sub (c # a @ n # b) \<longleftrightarrow> prefix sub (c # a)"
  proof
    assume "prefix sub (c # a @ n # b)"
    then have "prefix sub ((c # a) @ n # b)" by simp
    then have "prefix sub (c # a) \<or> (\<exists>us. prefix us (n # b) \<and> sub = (c # a) @ us \<and> us \<noteq> [])"
      unfolding prefix_append by (cases "prefix sub (c # a)") auto
    then show "prefix sub (c # a)"
    proof
      assume "prefix sub (c # a)" then show ?thesis .
    next
      assume "\<exists>us. prefix us (n # b) \<and> sub = (c # a) @ us \<and> us \<noteq> []"
      then obtain us where us: "prefix us (n # b)" "sub = (c # a) @ us" "us \<noteq> []" by blast
      then have "n \<in> set us" by (cases us) auto
      with us assms show ?thesis by simp
    qed
  next
    assume "prefix sub (c # a)"
    then show "prefix sub (c # a @ n # b)" by (metis append_Cons prefix_prefix)
  qed
  with Cons show ?case by simp
qed

lemma occ_images:
  "occurrences (ustr ''- Include image placeholders with [Image: description]'') (style_instructions opts) =
     occurrences (ustr ''- Include image placeholders with [Image: description]'') (py_str (tone opts)) +
     occurrences (ustr ''- Include image placeholders with [Image: description]'') (py_str (length_opt opts)) +
     occurrences (ustr ''- Include image placeholders with [Image: description]'') (py_str (focus opts)) +
     (if truthy (include_images opts) then 1 else 0)"
  by (simp add: style_instructions_def occurrences_append_sep)

lemma occ_cta:
  "occurrences (ustr ''- Include a clear call-to-action at the end'') (style_instructions opts) =
     occurrences (ustr ''- Include a clear call-to-action at the end'') (py_str (tone opts)) +
     occurrences (ustr ''- Include a clear call-to-action at the end'') (py_str (length_opt opts)) +
     occurrences (ustr ''- Include a clear call-to-action at the end'') (py_str (focus opts)) +
     (if truthy (include_cta opts) then 1 else 0)"
  by (simp add: style_instructions_def occurrences_append_sep)

lemma occ_stats:
  "occurrences (ustr ''- Emphasize statistics and data points'') (style_instructions opts) =
     occurrences (ustr ''- Emphasize statistics and data points'') (py_str (tone opts)) +
     occurrences (ustr ''- Emphasize statistics and data points'') (py_str (length_opt opts)) +
     occurrences (ustr ''- Emphasize statistics and data points'') (py_str (focus opts)) +
     (if truthy (include_stats opts) then 1 else 0)"
  by (simp add: style_instructions_def occurrences_append_sep)

lemma occ_quotes:
  "occurrences (ustr ''- Include expert quotes when available'') (style_instructions opts) =
     occurrences (ustr ''- Include expert quotes when available'') (py_str (tone opts)) +
     occurrences (ustr ''- Include expert quotes when available'') (py_str (length_opt opts)) +
     occurrences (ustr ''- Include expert quotes when available'') (py_str (focus opts)) +
     (if truthy (include_quotes opts) then 1 else 0)"
  by (simp add: style_instructions_def occurrences_append_sep)

lemma occ_options:
  assumes "t \<in> set tone_options \<union> set length_options \<union> set focus_options"
  shows "occurrences (ustr ''- Include image placeholders with [Image: description]'') t = 0"
    and "occurrences (ustr ''- Include a clear call-to-action at the end'') t = 0"
    and "occurrences (ustr ''- Emphasize statistics and data points'') t = 0"
    and "occurrences (ustr ''- Include expert quotes when available'') t = 0"
  using assms by (auto simp: tone_options_def length_options_def focus_options_def)

lemma templates_Standard:
  "map_of (templates opts) (PStr (ustr ''Standard'')) = Some (PStr Standard_skeleton)"
  by (simp add: templates_def)

text \<open>
  Claim C1. For every customization dictionary: when the template is \<^verbatim>\<open>"Custom"\<close>
  and a custom-sections text is supplied (a string that is not empty), the selected
  template is that text, unchanged; when the template is one of \<^verbatim>\<open>"Standard"\<close>,
  \<^verbatim>\<open>"Tech News"\<close>, \<^verbatim>\<open>"Business Weekly"\<close>, \<^verbatim>\<open>"Research Digest"\<close>, it is the skeleton
  the table has under that name; and for a name that is none of the five it is the
  Standard skeleton.
\<close>

theorem selected_template_resolved:
  "(d (ustr ''template'') = Some (PStr (ustr ''Custom'')) \<and>
    d (ustr ''custom_sections'') = Some (PStr text) \<and> text \<noteq> []
      \<longrightarrow> selected_template (extract_options d) = PStr text) \<and>
   (d (ustr ''template'') = Some (PStr (ustr ''Standard''))
      \<longrightarrow> selected_template (extract_options d) = PStr Standard_skeleton) \<and>
   (d (ustr ''template'') = Some (PStr (ustr ''Tech News''))
      \<longrightarrow> selected_template (extract_options d) = PStr Tech_News_skeleton) \<and>
   (d (ustr ''template'') = Some (PStr (ustr ''Business Weekly''))
      \<longrightarrow> selected_template (extract_options d) = PStr Business_Weekly_skeleton) \<and>
   (d (ustr ''template'') = Some (PStr (ustr ''Research Digest''))
      \<longrightarrow> selected_template (extract_options d) = PStr Research_Digest_skeleton) \<and>
   (d (ustr ''template'') = Some (PStr name) \<and>
    name \<notin> {ustr ''Standard'', ustr ''Tech News'', ustr ''Business Weekly'',
              ustr ''Research Digest'', ustr ''Custom''}
      \<longrightarrow> selected_template (extract_options d) = PStr Standard_skeleton)"
  by (simp add: selected_template_def templates_def extract_options_def dict_get_def)

text \<open>The property of claim C1 on concrete inputs.\<close>

theorem selected_template_resolved_witness:
  "selected_template (extract_options
     [ustr ''template'' \<mapsto> PStr (ustr ''Custom''),
      ustr ''custom_sections'' \<mapsto> PStr (ustr ''Welcome\<newline>Main Story'')])
     = PStr (ustr ''Welcome\<newline>Main Story'') \<and>
   selected_template (extract_options [ustr ''template'' \<mapsto> PStr (ustr ''Standard'')])
     = PStr Standard_skeleton \<and>
   selected_template (extract_options [ustr ''template'' \<mapsto> PStr (ustr ''Tech News'')])
     = PStr Tech_News_skeleton \<and>
   selected_template (extract_options [ustr ''template'' \<mapsto> PStr (ustr ''Business Weekly'')])
     = PStr Business_Weekly_skeleton \<and>
   selected_template (extract_options [ustr ''template'' \<mapsto> PStr (ustr ''Research Digest'')])
     = PStr Research_Digest_skeleton \<and>
   selected_template (extract_options [ustr ''template'' \<mapsto> PStr (ustr ''Weekly Roundup'')])
     = PStr Standard_skeleton"
  using
    selected_template_resolved
      [of "[ustr ''template'' \<mapsto> PStr (ustr ''Custom''),
            ustr ''custom_sections'' \<mapsto> PStr (ustr ''Welcome\<newline>Main Story'')]"
          "ustr ''Welcome\<newline>Main Story''"]
    selected_template_resolved [of "[ustr ''template'' \<mapsto> PStr (ustr ''Standard'')]"]
    selected_template_resolved [of "[ustr ''template'' \<mapsto> PStr (ustr ''Tech News'')]"]
    selected_template_resolved [of "[ustr ''template'' \<mapsto> PStr (ustr ''Business Weekly'')]"]
    selected_template_resolved [of "[ustr ''template'' \<mapsto> PStr (ustr ''Research Digest'')]"]
    selected_template_resolved
      [of "[ustr ''template'' \<mapsto> PStr (ustr ''Weekly Roundup'')]" _ "ustr ''Weekly Roundup''"]
  by simp

text \<open>
  Claim C5. For every combination of the four boolean flags, and for the tone, length
  and focus the form offers, the style directive holds the sentence of a flag at
  exactly one position when the flag is true and at none when it is false; the count
  for a flag depends on no other flag.
\<close>

theorem style_instructions_flags:
  assumes "tone opts \<in> PStr ` set tone_options"
    and "length_opt opts \<in> PStr ` set length_options"
    and "focus opts \<in> PStr ` set focus_options"
    and "include_images opts = PBool images" and "include_cta opts = PBool cta"
    and "include_stats opts = PBool stats" and "include_quotes opts = PBool quotes"
  shows "occurrences (ustr ''- Include image placeholders with [Image: description]'')
           (style_instructions opts) = (if images then 1 else 0) \<and>
         occurrences (ustr ''- Include a clear call-to-action at the end'')
           (style_instructions opts) = (if cta then 1 else 0) \<and>
         occurrences (ustr ''- Emphasize statistics and data points'')
           (style_instructions opts) = (if stats then 1 else 0) \<and>
         occurrences (ustr ''- Include expert quotes when available'')
           (style_instructions opts) = (if quotes then 1 else 0)"
proof -
  from assms(1) obtain t where t: "tone opts = PStr t" "t \<in> set tone_options" by blast
  from assms(2) obtain l where l: "length_opt opts = PStr l" "l \<in> set length_options" by blast
  from assms(3) obtain f where f: "focus opts = PStr f" "f \<in> set focus_options" by blast
  have "t \<in> set tone_options \<union> set length_options \<union> set focus_options"
       "l \<in> set tone_options \<union> set length_options \<union> set focus_options"
       "f \<in> set tone_options \<union> set length_options \<union> set focus_options"
    using t l f by simp_all
  note z = this [THEN occ_options(1)] this [THEN occ_options(2)]
           this [THEN occ_options(3)] this [THEN occ_options(4)]
  show ?thesis
    unfolding occ_images occ_cta occ_stats occ_quotes
    using assms(4-7) z by (simp add: t l f)
qed

text \<open>The property of claim C5 on concrete inputs.\<close>

theorem style_instructions_flags_witness:
  "occurrences (ustr ''- Include image placeholders with [Image: description]'')
     (style_instructions (extract_options (App_customization
        (sample_inputs\<lparr> cta_checkbox := False, quotes_checkbox := False \<rparr>)))) = 1 \<and>
   occurrences (ustr ''- Include a clear call-to-action at the end'')
     (style_instructions (extract_options (App_customization
        (sample_inputs\<lparr> cta_checkbox := False, quotes_checkbox := False \<rparr>)))) = 0 \<and>
   occurrences (ustr ''- Emphasize statistics and data points'')
     (style_instructions (extract_options (App_customization
        (sample_inputs\<lparr> cta_checkbox := False, quotes_checkbox := False \<rparr>)))) = 1 \<and>
   occurrences (ustr ''- Include expert quotes when available'')
     (style_instructions (extract_options (App_customization
        (sample_inputs\<lparr> cta_checkbox := False, quotes_checkbox := False \<rparr>)))) = 0"
  using style_instructions_flags
    [of "extract_options (App_customization
           (sample_inputs\<lparr> cta_checkbox := False, quotes_checkbox := False \<rparr>))"
        True False True False]
  by (simp add: extract_options_def App_customization_def sample_inputs_def dict_get_def
        tone_options_def length_options_def focus_options_def)

text \<open>
  Claim C9. When the template is \<^verbatim>\<open>"Custom"\<close> and \<^verbatim>\<open>custom_sections\<close> is absent,
  \<^verbatim>\<open>None\<close> or the empty string, the selected template is the string
  \<^verbatim>\<open>"Standard"\<close> of eight characters, which is not the Standard skeleton.
\<close>

theorem custom_without_sections:
  "d (ustr ''template'') = Some (PStr (ustr ''Custom'')) \<and>
   (d (ustr ''custom_sections'') = None \<or> d (ustr ''custom_sections'') = Some PNone \<or>
    d (ustr ''custom_sections'') = Some (PStr []))
   \<longrightarrow> selected_template (extract_options d) = PStr (ustr ''Standard'') \<and>
       length (ustr ''Standard'') = 8 \<and>
       ustr ''Standard'' \<noteq> Standard_skeleton"
  by (auto simp: selected_template_def templates_def extract_options_def dict_get_def
        Standard_skeleton_def)

text \<open>The property of claim C9 on concrete inputs.\<close>

theorem custom_without_sections_witness:
  "selected_template (extract_options [ustr ''template'' \<mapsto> PStr (ustr ''Custom'')])
     = PStr (ustr ''Standard'') \<and>
   selected_template (extract_options
     [ustr ''template'' \<mapsto> PStr (ustr ''Custom''), ustr ''custom_sections'' \<mapsto> PNone])
     = PStr (ustr ''Standard'') \<and>
   selected_template (extract_options
     [ustr ''template'' \<mapsto> PStr (ustr ''Custom''), ustr ''custom_sections'' \<mapsto> PStr []])
     = PStr (ustr ''Standard'') \<and>
   ustr ''Standard'' \<noteq> Standard_skeleton"
  using
    custom_without_sections [of "[ustr ''template'' \<mapsto> PStr (ustr ''Custom'')]"]
    custom_without_sections
      [of "[ustr ''template'' \<mapsto> PStr (ustr ''Custom''), ustr ''custom_sections'' \<mapsto> PNone]"]
    custom_without_sections
      [of "[ustr ''template'' \<mapsto> PStr (ustr ''Custom''), ustr ''custom_sections'' \<mapsto> PStr []]"]
  by simp

text \<open>
  Claim C10. Called with \<^verbatim>\<open>customization = None\<close>, or with a dictionary that omits
  a key, \<^verbatim>\<open>NewsletterGenerator\<close> takes these defaults: tone \<^verbatim>\<open>"Professional"\<close>, length
  \<^verbatim>\<open>"Medium (1000 words)"\<close>, focus \<^verbatim>\<open>"Balanced"\<close>, template \<^verbatim>\<open>"Standard"\<close>,
  \<^verbatim>\<open>include_images\<close> and \<^verbatim>\<open>include_cta\<close> false, \<^verbatim>\<open>include_stats\<close> and
  \<^verbatim>\<open>include_quotes\<close> true; so the sentences on statistics and on expert quotes are in
  the style directive by default.
\<close>

theorem customization_defaults:
  "extract_options (customization_or_empty None) =
     \<lparr> tone = PStr (ustr ''Professional''), length_opt = PStr (ustr ''Medium (1000 words)''),
       focus = PStr (ustr ''Balanced''), include_images = PBool False,
       include_cta = PBool False, include_stats = PBool True, include_quotes = PBool True,
       template = PStr (ustr ''Standard''), custom_sections = PNone \<rparr> \<and>
   (d (ustr ''tone'') = None \<longrightarrow> tone (extract_options d) = PStr (ustr ''Professional'')) \<and>
   (d (ustr ''length'') = None \<longrightarrow>
      length_opt (extract_options d) = PStr (ustr ''Medium (1000 words)'')) \<and>
   (d (ustr ''focus'') = None \<longrightarrow> focus (extract_options d) = PStr (ustr ''Balanced'')) \<and>
   (d (ustr ''template'') = None \<longrightarrow> template (extract_options d) = PStr (ustr ''Standard'')) \<and>
   (d (ustr ''include_images'') = None \<longrightarrow> include_images (extract_options d) = PBool False) \<and>
   (d (ustr ''include_cta'') = None \<longrightarrow> include_cta (extract_options d) = PBool False) \<and>
   (d (ustr ''include_stats'') = None \<longrightarrow> include_stats (extract_options d) = PBool True) \<and>
   (d (ustr ''include_quotes'') = None \<longrightarrow> include_quotes (extract_options d) = PBool True) \<and>
   style_instructions (extract_options (customization_or_empty None)) =
     ustr (''\<newline>'' @
       ''    Writing Style:\<newline>'' @
       ''    - Tone: Professional\<newline>'' @
       ''    - Length: Medium (1000 words)\<newline>'' @
       ''    - Focus: Balanced\<newline>'' @
       ''    \<newline>'' @
       ''    \<newline>'' @
       ''    - Emphasize statistics and data points\<newline>'' @
       ''    - Include expert quotes when available\<newline>'' @
       ''    '') \<and>
   (d (ustr ''include_stats'') = None \<longrightarrow>
      0 < occurrences (ustr ''- Emphasize statistics and data points'')
            (style_instructions (extract_options d))) \<and>
   (d (ustr ''include_quotes'') = None \<longrightarrow>
      0 < occurrences (ustr ''- Include expert quotes when available'')
            (style_instructions (extract_options d)))"
proof -
  have a: "d (ustr ''include_stats'') = None \<Longrightarrow> truthy (include_stats (extract_options d))"
    by (simp add: extract_options_def dict_get_def)
  have b: "d (ustr ''include_quotes'') = None \<Longrightarrow> truthy (include_quotes (extract_options d))"
    by (simp add: extract_options_def dict_get_def)
  have c: "style_instructions (extract_options (customization_or_empty None)) =
     ustr (''\<newline>'' @
       ''    Writing Style:\<newline>'' @
       ''    - Tone: Professional\<newline>'' @
       ''    - Length: Medium (1000 words)\<newline>'' @
       ''    - Focus: Balanced\<newline>'' @
       ''    \<newline>'' @
       ''    \<newline>'' @
       ''    - Emphasize statistics and data points\<newline>'' @
       ''    - Include expert quotes when available\<newline>'' @
       ''    '')"
    by (simp add: style_instructions_def extract_options_def dict_get_def)
  have e: "extract_options (customization_or_empty None) =
     \<lparr> tone = PStr (ustr ''Professional''), length_opt = PStr (ustr ''Medium (1000 words)''),
       focus = PStr (ustr ''Balanced''), include_images = PBool False,
       include_cta = PBool False, include_stats = PBool True, include_quotes = PBool True,
       template = PStr (ustr ''Standard''), custom_sections = PNone \<rparr>"
    by (simp add: extract_options_def dict_get_def)
  have f: "(d (ustr ''tone'') = None \<longrightarrow> tone (extract_options d) = PStr (ustr ''Professional'')) \<and>
   (d (ustr ''length'') = None \<longrightarrow>
      length_opt (extract_options d) = PStr (ustr ''Medium (1000 words)'')) \<and>
   (d (ustr ''focus'') = None \<longrightarrow> focus (extract_options d) = PStr (ustr ''Balanced'')) \<and>
   (d (ustr ''template'') = None \<longrightarrow> template (extract_options d) = PStr (ustr ''Standard'')) \<and>
   (d (ustr ''include_images'') = None \<longrightarrow> include_images (extract_options d) = PBool False) \<and>
   (d (ustr ''include_cta'') = None \<longrightarrow> include_cta (extract_options d) = PBool False) \<and>
   (d (ustr ''include_stats'') = None \<longrightarrow> include_stats (extract_options d) = PBool True) \<and>
   (d (ustr ''include_quotes'') = None \<longrightarrow> include_quotes (extract_options d) = PBool True)"
    by (simp add: extract_options_def dict_get_def)
  show ?thesis
    unfolding occ_stats occ_quotes
    using a b c e f by simp
qed

text \<open>The property of claim C10 on concrete inputs.\<close>

theorem customization_defaults_witness:
  "tone (extract_options [ustr ''focus'' \<mapsto> PStr (ustr ''News-heavy'')]) = PStr (ustr ''Professional'') \<and>
   include_stats (extract_options [ustr ''focus'' \<mapsto> PStr (ustr ''News-heavy'')]) = PBool True \<and>
   0 < occurrences (ustr ''- Emphasize statistics and data points'')
         (style_instructions (extract_options [ustr ''focus'' \<mapsto> PStr (ustr ''News-heavy'')])) \<and>
   0 < occurrences (ustr ''- Include expert quotes when available'')
         (style_instructions (extract_options [ustr ''focus'' \<mapsto> PStr (ustr ''News-heavy'')]))"
  using customization_defaults [of "[ustr ''focus'' \<mapsto> PStr (ustr ''News-heavy'')]"]
  by simp


section \<open>The page: claims C4 and C7\<close>

lemma NewsletterGenerator_calls:
  "\<exists>calls. snd (NewsletterGenerator e topic c log) = log @ calls \<and> calls \<noteq> [] \<and>
     distinct calls \<and> length calls \<le> 4"
  unfolding NewsletterGenerator_log by (rule crew_run_log)

lemma NewsletterGenerator_logs: "snd (NewsletterGenerator e topic c log) \<noteq> log"
  using NewsletterGenerator_calls [of e topic c log] by auto

lemma App_generate_history:
  "newsletter_history (fst (fst (App_generate e i (s, log)))) =
     newsletter_history s @
     (case successful_generation e (i\<lparr> pressed := Some Generate_button \<rparr>) log of
        None \<Rightarrow> [] | Some entry \<Rightarrow> [entry])"
  by (simp add: App_generate_def successful_generation_def keys_configured_def
        App_customization_def split: prod.splits)

lemma App_examples_history [simp]:
  "newsletter_history (App_examples i s) = newsletter_history s"
  by (simp add: App_examples_def split: option.splits button.splits)

lemma App_examples_Generate [simp]:
  "pressed i = Some Generate_button \<Longrightarrow> App_examples i s = s"
  by (simp add: App_examples_def)

lemma app_examples_Generate [simp]:
  "pressed i = Some Generate_button \<Longrightarrow> app_examples i s = s"
  by (simp add: app_examples_def)

lemma pressed_Generate_update:
  "pressed i = Some Generate_button \<Longrightarrow> i\<lparr> pressed := Some Generate_button \<rparr> = i"
  by simp

lemma App_script_history:
  "newsletter_history (fst (fst (App_script e i (s, log)))) =
     newsletter_history s @
     (case successful_generation e i log of None \<Rightarrow> [] | Some entry \<Rightarrow> [entry])"
proof (cases "pressed i = Some Generate_button")
  case True
  obtain st' page where g: "App_generate e i (s, log) = (st', page)"
    by (cases "App_generate e i (s, log)")
  have "newsletter_history (fst st') =
     newsletter_history s @
     (case successful_generation e i log of None \<Rightarrow> [] | Some entry \<Rightarrow> [entry])"
    using App_generate_history [of e i s log] g True by (simp add: pressed_Generate_update)
  with True g show ?thesis by (simp add: App_script_def Let_def)
next
  case False
  then show ?thesis by (simp add: App_script_def Let_def successful_generation_def)
qed

lemma App_run_history:
  "newsletter_history (fst (fst (App_run e i (s, log)))) =
     newsletter_history s @
     (case successful_generation e i log of None \<Rightarrow> [] | Some entry \<Rightarrow> [entry])"
proof (cases "\<exists>idx. pressed i = Some (Load_button idx)")
  case True
  then obtain idx where p: "pressed i = Some (Load_button idx)" by blast
  have n: "successful_generation e i log = None"
       "successful_generation e (i\<lparr> pressed := None \<rparr>) log = None"
    using p by (simp_all add: successful_generation_def)
  show ?thesis
    using p n App_script_history [of e "i\<lparr> pressed := None \<rparr>" s log]
      App_script_history [of e "i\<lparr> pressed := None \<rparr>"
        "s\<lparr> loaded_newsletter := Some (sidebar_items (newsletter_history s) ! idx) \<rparr>" log]
    by (simp add: App_run_def)
next
  case False
  then have "App_run e i (s, log) = App_script e i (s, log)"
    by (auto simp: App_run_def split: option.splits button.splits)
  then show ?thesis by (simp add: App_script_history)
qed

lemma App_session_history:
  "newsletter_history (fst (App_session e runs st)) =
     newsletter_history (fst st) @ successful_generations e runs st"
proof (induction runs arbitrary: st)
  case Nil
  show ?case by simp
next
  case (Cons i runs)
  obtain s log where st: "st = (s, log)" by (cases st)
  show ?case
    using Cons.IH [of "fst (App_run e i st)"] App_run_history [of e i s log]
    by (simp add: st)
qed

lemma sample_keys: "keys_configured sample_inputs"
  by (simp add: keys_configured_def env_truthy_def sample_inputs_def)

lemma sample_topic: "topic_input sample_inputs = ustr ''Climate tech''"
  by (simp add: sample_inputs_def)

lemma sample_pressed: "pressed sample_inputs = Some Generate_button"
  by (simp add: sample_inputs_def)

lemma sample_App_options:
  "extract_options (App_customization sample_inputs) =
     \<lparr> tone = PStr (ustr ''Professional''), length_opt = PStr (ustr ''Medium (1000 words)''),
       focus = PStr (ustr ''Balanced''), include_images = PBool True,
       include_cta = PBool True, include_stats = PBool True, include_quotes = PBool True,
       template = PStr (ustr ''Standard''), custom_sections = PNone \<rparr>"
  by (simp add: extract_options_def App_customization_def sample_inputs_def dict_get_def)

lemma sample_app_options:
  "extract_options (app_customization sample_inputs) =
     \<lparr> tone = PStr (ustr ''Professional''), length_opt = PStr (ustr ''Medium (1000 words)''),
       focus = PStr (ustr ''Balanced''), include_images = PBool False,
       include_cta = PBool False, include_stats = PBool True, include_quotes = PBool True,
       template = PStr (ustr ''Standard''), custom_sections = PNone \<rparr>"
  by (simp add: extract_options_def app_customization_def sample_inputs_def dict_get_def)

lemma sample_writing:
  "\<exists>d. writing_description \<lparr> str_lower = ascii_lower, raises = r, kickoff_output = k \<rparr> topic
     \<lparr> tone = PStr (ustr ''Professional''), length_opt = PStr (ustr ''Medium (1000 words)''),
       focus = PStr (ustr ''Balanced''), include_images = PBool a,
       include_cta = PBool b, include_stats = PBool True, include_quotes = PBool True,
       template = PStr (ustr ''Standard''), custom_sections = PNone \<rparr> = Inr d"
  by (simp add: writing_description_def lower_method_def approximate_length_def)

lemma sample_answer:
  "fst (crew_run (answering_env out) topic
     \<lparr> tone = PStr (ustr ''Professional''), length_opt = PStr (ustr ''Medium (1000 words)''),
       focus = PStr (ustr ''Balanced''), include_images = PBool a,
       include_cta = PBool b, include_stats = PBool True, include_quotes = PBool True,
       template = PStr (ustr ''Standard''), custom_sections = PNone \<rparr> log) = Inr out"
proof -
  obtain d where "writing_description
     \<lparr> str_lower = ascii_lower, raises = (\<lambda>log c. None), kickoff_output = (\<lambda>log. out) \<rparr> topic
     \<lparr> tone = PStr (ustr ''Professional''), length_opt = PStr (ustr ''Medium (1000 words)''),
       focus = PStr (ustr ''Balanced''), include_images = PBool a,
       include_cta = PBool b, include_stats = PBool True, include_quotes = PBool True,
       template = PStr (ustr ''Standard''), custom_sections = PNone \<rparr> = Inr d"
    using sample_writing by blast
  then show ?thesis by (simp add: crew_run_def Let_def answering_env_def)
qed

lemma sample_failure:
  "fst (crew_run (failing_env msg) topic
     \<lparr> tone = PStr (ustr ''Professional''), length_opt = PStr (ustr ''Medium (1000 words)''),
       focus = PStr (ustr ''Balanced''), include_images = PBool a,
       include_cta = PBool b, include_stats = PBool True, include_quotes = PBool True,
       template = PStr (ustr ''Standard''), custom_sections = PNone \<rparr> log)
   = Inl (FrameworkError msg)"
proof -
  obtain d where "writing_description
     \<lparr> str_lower = ascii_lower,
       raises = (\<lambda>log c. case c of Kickoff t \<Rightarrow> Some (FrameworkError msg) | _ \<Rightarrow> None),
       kickoff_output = (\<lambda>log. []) \<rparr> topic
     \<lparr> tone = PStr (ustr ''Professional''), length_opt = PStr (ustr ''Medium (1000 words)''),
       focus = PStr (ustr ''Balanced''), include_images = PBool a,
       include_cta = PBool b, include_stats = PBool True, include_quotes = PBool True,
       template = PStr (ustr ''Standard''), custom_sections = PNone \<rparr> = Inr d"
    using sample_writing by blast
  then show ?thesis by (simp add: crew_run_def Let_def failing_env_def)
qed

lemma sample_file_name:
  "file_name (ustr ''Climate tech'') (ustr ''.md'') = ustr ''newsletter_Climate_tech.md''"
  by (simp add: file_name_def py_replace_char)


text \<open>
  Claim C4. When the topic is the empty string, or one of the two keys
  \<^verbatim>\<open>GROQ_API_KEY\<close> and \<^verbatim>\<open>SERPER_API_KEY\<close> is absent, a run in which Generate is
  pressed shows an error message and changes neither the session nor the log of
  external calls (in \<^verbatim>\<open>App.py\<close> and in \<^verbatim>\<open>app.py\<close>). Every invocation of
  \<^verbatim>\<open>NewsletterGenerator\<close> adds a call to that log, so it was not invoked.
\<close>

theorem generation_blocked:
  "((topic_input i = [] \<or> getenv i (ustr ''GROQ_API_KEY'') = None \<or>
     getenv i (ustr ''SERPER_API_KEY'') = None) \<and> pressed i = Some Generate_button \<longrightarrow>
      App_run e i (s, log) =
        ((s, log),
         App_sidebar_keys i @ App_sidebar_history s @
         [St_error ([9888, 65039] @
            (if topic_input i = [] then ustr '' Please enter a topic!''
             else ustr '' Please configure API keys in Streamlit secrets!''))]) \<and>
      app_run e i (s, log) =
        ((s, log),
         app_sidebar_keys i @
         [St_error ([9888, 65039] @
            (if topic_input i = [] then ustr '' Please enter a topic!''
             else ustr '' Please configure API keys!''))])) \<and>
   snd (NewsletterGenerator e topic c log) \<noteq> log"
proof (intro conjI impI)
  assume a: "(topic_input i = [] \<or> getenv i (ustr ''GROQ_API_KEY'') = None \<or>
     getenv i (ustr ''SERPER_API_KEY'') = None) \<and> pressed i = Some Generate_button"
  then have b: "topic_input i = [] \<or> \<not> keys_configured i"
    by (auto simp: keys_configured_def env_truthy_def)
  from a have p: "pressed i = Some Generate_button" by simp
  show "App_run e i (s, log) =
        ((s, log),
         App_sidebar_keys i @ App_sidebar_history s @
         [St_error ([9888, 65039] @
            (if topic_input i = [] then ustr '' Please enter a topic!''
             else ustr '' Please configure API keys in Streamlit secrets!''))])"
    using p by (simp add: App_run_def App_script_def Let_def App_generate_blocked [OF b])
  show "app_run e i (s, log) =
        ((s, log),
         app_sidebar_keys i @
         [St_error ([9888, 65039] @
            (if topic_input i = [] then ustr '' Please enter a topic!''
             else ustr '' Please configure API keys!''))])"
    using p by (simp add: app_run_def Let_def app_generate_blocked [OF b])
next
  show "snd (NewsletterGenerator e topic c log) \<noteq> log"
    by (rule NewsletterGenerator_logs)
qed

text \<open>
  The property of claim C4 on concrete inputs: the form with an empty topic, and the
  form with no key set and the topic \<^verbatim>\<open>"AI trends"\<close>.
\<close>

theorem generation_blocked_witness:
  "App_run (answering_env sample_newsletter) (sample_inputs\<lparr> topic_input := [] \<rparr>)
     (new_session, []) =
     ((new_session, []),
      [St_success ([9989] @ ustr '' API keys configured!''),
       St_subheader ([128218] @ ustr '' History''),
       St_caption (ustr ''No history yet''),
       St_error ([9888, 65039] @ ustr '' Please enter a topic!'')]) \<and>
   fst (App_run (answering_env sample_newsletter)
     (sample_inputs\<lparr> topic_input := ustr ''AI trends'', getenv := (\<lambda>k. None) \<rparr>)
     (new_session, [])) = (new_session, []) \<and>
   app_run (answering_env sample_newsletter)
     (sample_inputs\<lparr> topic_input := ustr ''AI trends'', getenv := (\<lambda>k. None) \<rparr>)
     (new_session, []) =
     ((new_session, []),
      [St_warning ([9888, 65039] @ ustr '' Add API keys in Settings '' @ [8594] @
         ustr '' Secrets''),
       St_error ([9888, 65039] @ ustr '' Please configure API keys!'')])"
  using generation_blocked
    [of "sample_inputs\<lparr> topic_input := [] \<rparr>" "answering_env sample_newsletter"
        new_session "[]"]
    generation_blocked
    [of "sample_inputs\<lparr> topic_input := ustr ''AI trends'', getenv := (\<lambda>k. None) \<rparr>"
        "answering_env sample_newsletter" new_session "[]"]
  by (simp add: sample_inputs_def App_sidebar_keys_def App_sidebar_history_def
        app_sidebar_keys_def keys_configured_def env_truthy_def new_session_def)

text \<open>
  Claim C7. Within one session, the history is the list of the entries of the
  successful generations, in the order of the runs, so after \<open>N\<close> of them it has
  \<open>N\<close> entries; a run never changes or removes an entry that is in the history, it
  only appends; and the sidebar of a run shows the five most recent entries of the
  history the run starts with, the most recent first.
\<close>

theorem history_invariants:
  "newsletter_history (fst (App_session e runs (new_session, log))) =
     successful_generations e runs (new_session, log) \<and>
   length (newsletter_history (fst (App_session e runs (new_session, log)))) =
     length (successful_generations e runs (new_session, log)) \<and>
   prefix (newsletter_history s) (newsletter_history (fst (fst (App_run e i (s, log))))) \<and>
   prefix (newsletter_history s) (newsletter_history (fst (App_session e runs (s, log)))) \<and>
   sidebar_items (newsletter_history s) = take 5 (rev (newsletter_history s)) \<and>
   App_sidebar_history s =
     St_subheader ([128218] @ ustr '' History'') #
     (if newsletter_history s \<noteq> [] then
        St_caption (ustr ''Generated: '' @ decimal (length (newsletter_history s)) @
                    ustr '' newsletters'') #
        concat (map (\<lambda>(idx, item).
            [St_expander ([128196] @ ustr '' '' @ take 30 (h_topic item) @ ustr ''...''),
             St_caption (ustr ''Created: '' @ h_timestamp item),
             St_button (ustr ''Load'') (Some (ustr ''load_'' @ decimal idx))])
          (enumerate 0 (take 5 (rev (newsletter_history s)))))
      else [St_caption (ustr ''No history yet'')])"
proof -
  have side: "sidebar_items h = take 5 (rev h)" for h :: "history_entry list"
    by (simp add: sidebar_items_def take_rev)
  have "newsletter_history (fst (App_session e runs (new_session, log))) =
     successful_generations e runs (new_session, log)"
    using App_session_history [of e runs "(new_session, log)"] by (simp add: new_session_def)
  moreover have "prefix (newsletter_history s)
      (newsletter_history (fst (fst (App_run e i (s, log)))))"
    by (simp add: App_run_history)
  moreover have "prefix (newsletter_history s)
      (newsletter_history (fst (App_session e runs (s, log))))"
    using App_session_history [of e runs "(s, log)"] by simp
  moreover have "App_sidebar_history s =
     St_subheader ([128218] @ ustr '' History'') #
     (if newsletter_history s \<noteq> [] then
        St_caption (ustr ''Generated: '' @ decimal (length (newsletter_history s)) @
                    ustr '' newsletters'') #
        concat (map (\<lambda>(idx, item).
            [St_expander ([128196] @ ustr '' '' @ take 30 (h_topic item) @ ustr ''...''),
             St_caption (ustr ''Created: '' @ h_timestamp item),
             St_button (ustr ''Load'') (Some (ustr ''load_'' @ decimal idx))])
          (enumerate 0 (take 5 (rev (newsletter_history s)))))
      else [St_caption (ustr ''No history yet'')])"
    unfolding App_sidebar_history_def side ..
  ultimately show ?thesis using side by simp
qed

text \<open>
  The property of claim C7 on concrete inputs: a session of three runs, a generation
  that succeeds, one that is blocked by an empty topic, and one that succeeds.
\<close>

theorem history_invariants_witness:
  "map h_topic (newsletter_history (fst (App_session (answering_env sample_newsletter)
     [sample_inputs, sample_inputs\<lparr> topic_input := [] \<rparr>,
      sample_inputs\<lparr> topic_input := ustr ''AI trends'' \<rparr>] (new_session, []))))
   = [ustr ''Climate tech'', ustr ''AI trends''] \<and>
   length (successful_generations (answering_env sample_newsletter)
     [sample_inputs, sample_inputs\<lparr> topic_input := [] \<rparr>,
      sample_inputs\<lparr> topic_input := ustr ''AI trends'' \<rparr>] (new_session, [])) = 2"
proof -
  have ok: "successful_generation (answering_env sample_newsletter)
              (sample_inputs\<lparr> topic_input := t \<rparr>) l =
            (if t = [] then None
             else Some \<lparr> h_topic = t, h_content = sample_newsletter,
                    h_timestamp = ustr ''2025-01-15 10:30'',
                    h_customization =
                      Some (App_customization (sample_inputs\<lparr> topic_input := t \<rparr>)) \<rparr>)"
    for t l
  proof -
    have o: "extract_options (App_customization (sample_inputs\<lparr> topic_input := t \<rparr>)) =
             extract_options (App_customization sample_inputs)"
      by (simp add: App_customization_def)
    have k: "keys_configured (sample_inputs\<lparr> topic_input := t \<rparr>)"
      using sample_keys by (simp add: keys_configured_def)
    have "fst (NewsletterGenerator (answering_env sample_newsletter) t
             (Some (App_customization (sample_inputs\<lparr> topic_input := t \<rparr>))) l) =
          \<lparr> content = sample_newsletter, status = ustr ''success'',
            customization_entry =
              Some (App_customization (sample_inputs\<lparr> topic_input := t \<rparr>)) \<rparr>"
      using NewsletterGenerator_success
        [of "answering_env sample_newsletter" t
            "Some (App_customization (sample_inputs\<lparr> topic_input := t \<rparr>))" l sample_newsletter]
        sample_answer [of sample_newsletter t True True l]
      by (simp add: o sample_App_options)
    then show ?thesis
      using k by (simp add: successful_generation_def sample_pressed) (simp add: sample_inputs_def)
  qed
  have t0: "sample_inputs = sample_inputs\<lparr> topic_input := ustr ''Climate tech'' \<rparr>"
    by (simp add: sample_inputs_def)
  have g: "successful_generations (answering_env sample_newsletter)
     [sample_inputs, sample_inputs\<lparr> topic_input := [] \<rparr>,
      sample_inputs\<lparr> topic_input := ustr ''AI trends'' \<rparr>] (new_session, []) =
     [\<lparr> h_topic = ustr ''Climate tech'', h_content = sample_newsletter,
        h_timestamp = ustr ''2025-01-15 10:30'',
        h_customization = Some (App_customization
          (sample_inputs\<lparr> topic_input := ustr ''Climate tech'' \<rparr>)) \<rparr>,
      \<lparr> h_topic = ustr ''AI trends'', h_content = sample_newsletter,
        h_timestamp = ustr ''2025-01-15 10:30'',
        h_customization = Some (App_customization
          (sample_inputs\<lparr> topic_input := ustr ''AI trends'' \<rparr>)) \<rparr>]"
    apply (subst t0)
    apply (simp only: successful_generations.simps ok)
    apply simp
    done
  show ?thesis
    using history_invariants
      [of "answering_env sample_newsletter"
          "[sample_inputs, sample_inputs\<lparr> topic_input := [] \<rparr>,
            sample_inputs\<lparr> topic_input := ustr ''AI trends'' \<rparr>]" "[]"]
    by (simp only: g) simp
qed


section \<open>The analytics and the downloads: claims C6 and C8\<close>

lemma decimal_digit: "n < 10 \<Longrightarrow> decimal n = [48 + n]"
  by (simp add: decimal.simps)

lemma thousands_small: "n < 1000 \<Longrightarrow> thousands n = decimal n"
  by (simp add: thousands.simps)

lemma section_count_run_pairs: "section_count c = run_pairs (of_char CHR ''#'') 0 c"
  using py_count_run_pairs [of 0 "of_char CHR ''#''" c]
  by (simp add: section_count_def)

text \<open>
  Claim C6, as it is stated, with the number of \<^verbatim>\<open>"##"\<close> substrings read as the
  number of positions at which \<^verbatim>\<open>"##"\<close> occurs, fails: in \<^verbatim>\<open>"### Sources"\<close> the
  string \<^verbatim>\<open>"##"\<close> occurs at two positions, and the page shows the section count 1.
\<close>

theorem section_count_counterexample:
  "occurrences (ustr ''##'') (ustr ''### Sources'') = 2 \<and>
   section_count (ustr ''### Sources'') = 1 \<and>
   section_count (ustr ''### Sources'') \<noteq> occurrences (ustr ''##'') (ustr ''### Sources'') \<and>
   St_metric (ustr ''Sections'') (ustr ''1'')
     \<in> set (App_result_page (ustr ''Climate tech'') (ustr ''### Sources''))"
  by (simp add: section_count_run_pairs App_result_page_def decimal_digit)

text \<open>
  Claim C6, amended. For every content \<open>c\<close>: the plain-text download is \<open>c\<close> without
  its \<^verbatim>\<open>#\<close> and \<^verbatim>\<open>*\<close> characters; the word count shown is the number of
  whitespace-delimited tokens of \<open>c\<close>; and the section count shown is the number of
  occurrences of \<^verbatim>\<open>"##"\<close> that do not overlap, found from left to right, which is
  \<open>k div 2\<close> for every maximal run of \<open>k\<close> characters \<^verbatim>\<open>#\<close>.
\<close>

theorem analytics_and_plain_text:
  "plain_text c = filter (\<lambda>x. x \<noteq> of_char CHR ''#'' \<and> x \<noteq> of_char CHR ''*'') c \<and>
   word_count c = token_count c \<and>
   section_count c = run_pairs (of_char CHR ''#'') 0 c \<and>
   St_download_button ([128196] @ ustr '' Download TXT'')
     (filter (\<lambda>x. x \<noteq> of_char CHR ''#'' \<and> x \<noteq> of_char CHR ''*'') c)
     (file_name topic (ustr ''.txt'')) (ustr ''text/plain'') \<in> set (App_result_page topic c) \<and>
   St_download_button ([128196] @ ustr '' Download Text'')
     (filter (\<lambda>x. x \<noteq> of_char CHR ''#'' \<and> x \<noteq> of_char CHR ''*'') c)
     (file_name topic (ustr ''.txt'')) (ustr ''text/plain'') \<in> set (app_result_page topic c) \<and>
   St_metric (ustr ''Word Count'') (thousands (token_count c)) \<in> set (App_result_page topic c) \<and>
   St_metric (ustr ''Sections'') (decimal (run_pairs (of_char CHR ''#'') 0 c))
     \<in> set (App_result_page topic c)"
proof -
  have w: "word_count c = token_count c"
    by (simp add: word_count_def token_count_def length_py_split)
  show ?thesis
    unfolding App_result_page_def app_result_page_def
    by (simp add: plain_text_filter [symmetric] w [symmetric] section_count_run_pairs [symmetric])
       (simp add: plain_text_filter w section_count_run_pairs)
qed

text \<open>The property of the amended claim C6 on a concrete content.\<close>

theorem analytics_and_plain_text_witness:
  "word_count sample_newsletter = 14 \<and>
   section_count sample_newsletter = 2 \<and>
   plain_text sample_newsletter =
     ustr ('' Climate tech this week\<newline>'' @
       ''\<newline>'' @
       '' Welcome\<newline>'' @
       ''Heat pumps are booming.\<newline>'' @
       '' Sources\<newline>'' @
       ''[IEA](https://www.iea.org)'') \<and>
   St_metric (ustr ''Word Count'') (ustr ''14'')
     \<in> set (App_result_page (ustr ''Climate tech'') sample_newsletter) \<and>
   St_metric (ustr ''Sections'') (ustr ''2'')
     \<in> set (App_result_page (ustr ''Climate tech'') sample_newsletter)"
proof -
  have t: "token_count sample_newsletter = 14"
    by (simp add: token_count_def sample_newsletter_def py_isspace_def)
  have r: "run_pairs (of_char CHR ''#'') 0 sample_newsletter = 2"
    by (simp add: sample_newsletter_def)
  have d: "decimal 14 = ustr ''14''" "decimal 2 = ustr ''2''"
    by (simp_all add: decimal.simps [of 14] decimal_digit)
  have f: "filter (\<lambda>x. x \<noteq> of_char CHR ''#'' \<and> x \<noteq> of_char CHR ''*'') sample_newsletter =
     ustr ('' Climate tech this week\<newline>'' @
       ''\<newline>'' @
       '' Welcome\<newline>'' @
       ''Heat pumps are booming.\<newline>'' @
       '' Sources\<newline>'' @
       ''[IEA](https://www.iea.org)'')"
    by (simp add: sample_newsletter_def)
  show ?thesis
    using analytics_and_plain_text [of sample_newsletter "ustr ''Climate tech''"]
    by (simp only: t r f d thousands_small)
qed

text \<open>
  Claim C8. For every content \<open>c\<close>, the HTML download is the fixed head, the body,
  and the fixed tail, and the body comes from \<open>c\<close> by the chain
  \<^verbatim>\<open>replace('#', '<h1>')\<close>, \<^verbatim>\<open>replace('##', '</h1><h2>')\<close>, \<^verbatim>\<open>replace('\n', '<br>')\<close>.
  After the first step no \<^verbatim>\<open>#\<close> is left, so the chain is a substitution of
  characters: every \<^verbatim>\<open>#\<close> becomes \<^verbatim>\<open><h1>\<close>, every newline \<^verbatim>\<open><br>\<close>, and the
  other characters stay.
\<close>

theorem html_download:
  "html_body c =
     py_replace
       (py_replace (py_replace c (ustr ''#'') (ustr ''<h1>'')) (ustr ''##'') (ustr ''</h1><h2>''))
       (ustr ''\<newline>'') (ustr ''<br>'') \<and>
   html_body c =
     concat (map (\<lambda>x. if x = of_char CHR ''#'' then ustr ''<h1>''
                       else if x = of_char CHR 0x0A then ustr ''<br>'' else [x]) c) \<and>
   St_download_button ([128231] @ ustr '' Download HTML'') (html_head @ html_body c @ html_tail)
     (file_name topic (ustr ''.html'')) (ustr ''text/html'') \<in> set (App_result_page topic c)"
proof (intro conjI)
  show "html_body c =
     py_replace
       (py_replace (py_replace c (ustr ''#'') (ustr ''<h1>'')) (ustr ''##'') (ustr ''</h1><h2>''))
       (ustr ''\<newline>'') (ustr ''<br>'')"
    by (simp only: html_body_def)
  show "html_body c =
     concat (map (\<lambda>x. if x = of_char CHR ''#'' then ustr ''<h1>''
                       else if x = of_char CHR 0x0A then ustr ''<br>'' else [x]) c)"
    by (rule html_body_subst)
  show "St_download_button ([128231] @ ustr '' Download HTML'') (html_head @ html_body c @ html_tail)
     (file_name topic (ustr ''.html'')) (ustr ''text/html'') \<in> set (App_result_page topic c)"
    by (simp add: App_result_page_def html_content_def)
qed

text \<open>The property of claim C8 on a concrete content.\<close>

theorem html_download_witness:
  "html_body (ustr ''# Climate\<newline>## Welcome'') = ustr ''<h1> Climate<br><h1><h1> Welcome'' \<and>
   St_download_button ([128231] @ ustr '' Download HTML'')
     (html_head @ ustr ''<h1> Climate<br><h1><h1> Welcome'' @ html_tail)
     (ustr ''newsletter_Climate_tech.html'') (ustr ''text/html'')
   \<in> set (App_result_page (ustr ''Climate tech'') (ustr ''# Climate\<newline>## Welcome''))"
proof -
  have f: "file_name (ustr ''Climate tech'') (ustr ''.html'') = ustr ''newsletter_Climate_tech.html''"
    by (simp add: file_name_def py_replace_char)
  have b: "concat (map (\<lambda>x. if x = of_char CHR ''#'' then ustr ''<h1>''
                       else if x = of_char CHR 0x0A then ustr ''<br>'' else [x])
             (ustr ''# Climate\<newline>## Welcome'')) = ustr ''<h1> Climate<br><h1><h1> Welcome''"
    by simp
  note h = html_download [of "ustr ''# Climate\<newline>## Welcome''" "ustr ''Climate tech''"]
  from h have "html_body (ustr ''# Climate\<newline>## Welcome'') =
     concat (map (\<lambda>x. if x = of_char CHR ''#'' then ustr ''<h1>''
                       else if x = of_char CHR 0x0A then ustr ''<br>'' else [x])
             (ustr ''# Climate\<newline>## Welcome''))"
    by blast
  then have 1: "html_body (ustr ''# Climate\<newline>## Welcome'') =
     ustr ''<h1> Climate<br><h1><h1> Welcome''"
    unfolding b .
  from h have "St_download_button ([128231] @ ustr '' Download HTML'')
     (html_head @ html_body (ustr ''# Climate\<newline>## Welcome'') @ html_tail)
     (file_name (ustr ''Climate tech'') (ustr ''.html'')) (ustr ''text/html'')
   \<in> set (App_result_page (ustr ''Climate tech'') (ustr ''# Climate\<newline>## Welcome''))"
    by blast
  then have 2: "St_download_button ([128231] @ ustr '' Download HTML'')
     (html_head @ ustr ''<h1> Climate<br><h1><h1> Welcome'' @ html_tail)
     (ustr ''newsletter_Climate_tech.html'') (ustr ''text/html'')
   \<in> set (App_result_page (ustr ''Climate tech'') (ustr ''# Climate\<newline>## Welcome''))"
    unfolding 1 f .
  from 1 2 show ?thesis by (rule conjI)
qed


section \<open>The pipeline: claims C2 and C3\<close>

lemma py_split_sep_absent: "sep \<notin> set s \<Longrightarrow> py_split_sep s sep = [s]"
  by (induction s) auto

lemma py_split_sep_length:
  "length (py_split_sep s sep) = Suc (length (filter (\<lambda>c. c = sep) s))"
  by (induction s) (auto split: list.splits)

lemma py_split_sep_present:
  assumes "sep \<in> set s"
  shows "\<exists>a b r. py_split_sep s sep = a # b # r"
proof -
  from assms have "filter (\<lambda>c. c = sep) s \<noteq> []"
    by (simp add: filter_empty_conv)
  then have "2 \<le> length (py_split_sep s sep)"
    unfolding py_split_sep_length by (cases "filter (\<lambda>c. c = sep) s") simp_all
  then show ?thesis
    by (cases "py_split_sep s sep"; cases "tl (py_split_sep s sep)") auto
qed

lemma py_split_sep_first: "\<exists>a r. py_split_sep s sep = a # r"
  using py_split_sep_length [of s sep] by (cases "py_split_sep s sep") auto

lemma approximate_length_no_paren:
  "of_char CHR ''('' \<notin> set l \<Longrightarrow>
   approximate_length (PStr l) = Inl (IndexError (ustr ''list index out of range''))"
  by (simp add: approximate_length_def py_split_sep_absent)

lemma approximate_length_paren:
  assumes "of_char CHR ''('' \<in> set l"
  shows "\<exists>w. approximate_length (PStr l) = Inr w"
proof -
  obtain a b r where 1: "py_split_sep l (of_char CHR ''('') = a # b # r"
    using py_split_sep_present [OF assms] by blast
  obtain w r' where 2: "py_split_sep b (of_char CHR '')'') = w # r'"
    using py_split_sep_first [of b "of_char CHR '')''"] by blast
  show ?thesis
    unfolding approximate_length_def by (simp only: pyval.case 1 2 list.case) blast
qed

lemma approximate_length_not_str:
  "(\<forall>s. v \<noteq> PStr s) \<Longrightarrow>
   approximate_length v =
     Inl (AttributeError ([39] @ type_name v @ [39] @ ustr '' object has no attribute '' @
                          [39] @ ustr ''split'' @ [39]))"
  by (cases v) (simp_all add: approximate_length_def)

lemma lower_method_not_str:
  "(\<forall>s. v \<noteq> PStr s) \<Longrightarrow>
   lower_method e v =
     Inl (AttributeError ([39] @ type_name v @ [39] @ ustr '' object has no attribute '' @
                          [39] @ ustr ''lower'' @ [39]))"
  by (cases v) (simp_all add: lower_method_def)

lemma lower_method_str: "lower_method e (PStr s) = Inr (str_lower e s)"
  by (simp add: lower_method_def)

lemma writing_description_tone:
  assumes "\<forall>s. tone opts \<noteq> PStr s"
  shows "writing_description e topic opts =
     Inl (AttributeError ([39] @ type_name (tone opts) @ [39] @
            ustr '' object has no attribute '' @ [39] @ ustr ''lower'' @ [39]))"
proof -
  note l = lower_method_not_str [OF assms, of e]
  show ?thesis
    unfolding writing_description_def l by (simp only: sum.case)
qed

lemma writing_description_length:
  assumes "tone opts = PStr t" "\<forall>s. length_opt opts \<noteq> PStr s"
  shows "writing_description e topic opts =
     Inl (AttributeError ([39] @ type_name (length_opt opts) @ [39] @
            ustr '' object has no attribute '' @ [39] @ ustr ''split'' @ [39]))"
proof -
  note a = approximate_length_not_str [OF assms(2)]
  show ?thesis
    unfolding writing_description_def assms(1) lower_method_str a by (simp only: sum.case)
qed

lemma writing_description_index:
  assumes "tone opts = PStr t" "length_opt opts = PStr l" "of_char CHR ''('' \<notin> set l"
  shows "writing_description e topic opts = Inl (IndexError (ustr ''list index out of range''))"
proof -
  note a = approximate_length_no_paren [OF assms(3)]
  show ?thesis
    unfolding writing_description_def assms(1,2) lower_method_str a by (simp only: sum.case)
qed

lemma writing_description_focus:
  assumes "tone opts = PStr t" "length_opt opts = PStr l" "of_char CHR ''('' \<in> set l"
    and "\<forall>s. focus opts \<noteq> PStr s"
  shows "writing_description e topic opts =
     Inl (AttributeError ([39] @ type_name (focus opts) @ [39] @
            ustr '' object has no attribute '' @ [39] @ ustr ''lower'' @ [39]))"
proof -
  obtain w where w: "approximate_length (PStr l) = Inr w"
    using approximate_length_paren [OF assms(3)] by blast
  note f = lower_method_not_str [OF assms(4), of e]
  show ?thesis
    unfolding writing_description_def assms(1,2) lower_method_str w f by (simp only: sum.case)
qed

lemma writing_description_total:
  assumes "tone opts = PStr t" "length_opt opts = PStr l" "of_char CHR ''('' \<in> set l"
    and "focus opts = PStr f"
  shows "\<exists>d. writing_description e topic opts = Inr d"
proof -
  obtain w where w: "approximate_length (PStr l) = Inr w"
    using approximate_length_paren [OF assms(3)] by blast
  show ?thesis
    unfolding writing_description_def assms(1,2,4) lower_method_str w
    by (simp only: sum.case) blast
qed

lemma crew_run_research_raises:
  "raises e log (research_task topic opts) = Some x \<Longrightarrow>
   crew_run e topic opts log = (Inl x, log @ [research_task topic opts])"
  by (simp add: crew_run_def Let_def research_task_def)

lemma crew_run_description_raises:
  "raises e log (research_task topic opts) = None \<Longrightarrow>
   writing_description e topic opts = Inl x \<Longrightarrow>
   crew_run e topic opts log = (Inl x, log @ [research_task topic opts])"
  by (simp add: crew_run_def Let_def research_task_def)

lemma crew_run_writing_raises:
  "writing_description e topic opts = Inr d \<Longrightarrow>
   none_raises e log [research_task topic opts] \<Longrightarrow>
   raises e (log @ [research_task topic opts]) (writing_task d) = Some x \<Longrightarrow>
   crew_run e topic opts log = (Inl x, log @ [research_task topic opts, writing_task d])"
  by (simp add: crew_run_def Let_def research_task_def writing_task_def)

lemma crew_run_crew_raises:
  "writing_description e topic opts = Inr d \<Longrightarrow>
   none_raises e log [research_task topic opts, writing_task d] \<Longrightarrow>
   raises e (log @ [research_task topic opts, writing_task d]) New_Crew = Some x \<Longrightarrow>
   crew_run e topic opts log =
     (Inl x, log @ [research_task topic opts, writing_task d, New_Crew])"
  by (simp add: crew_run_def Let_def research_task_def writing_task_def)

lemma crew_run_kickoff_raises:
  "writing_description e topic opts = Inr d \<Longrightarrow>
   none_raises e log [research_task topic opts, writing_task d, New_Crew] \<Longrightarrow>
   raises e (log @ [research_task topic opts, writing_task d, New_Crew]) (Kickoff topic) = Some x \<Longrightarrow>
   crew_run e topic opts log = (Inl x, log @ request_calls topic opts d)"
  by (simp add: crew_run_def Let_def research_task_def writing_task_def request_calls_def)

lemma crew_run_completes:
  "writing_description e topic opts = Inr d \<Longrightarrow>
   none_raises e log (request_calls topic opts d) \<Longrightarrow>
   crew_run e topic opts log =
     (Inr (kickoff_output e (log @ request_calls topic opts d)), log @ request_calls topic opts d)"
  by (simp add: crew_run_def Let_def research_task_def writing_task_def request_calls_def)

lemma NewsletterGenerator_Inl:
  "crew_run e topic (extract_options (customization_or_empty c)) log = (Inl x, log') \<Longrightarrow>
   NewsletterGenerator e topic c log = (error_dict x, log')"
  by (simp add: NewsletterGenerator_def Let_def error_dict_def)

lemma NewsletterGenerator_Inr:
  "crew_run e topic (extract_options (customization_or_empty c)) log = (Inr m, log') \<Longrightarrow>
   NewsletterGenerator e topic c log =
     (\<lparr> content = m, status = ustr ''success'',
        customization_entry = Some (customization_or_empty c) \<rparr>, log')"
  by (simp add: NewsletterGenerator_def Let_def)

lemma App_generate_error_dict:
  assumes "fst (NewsletterGenerator e (topic_input i) (Some (App_customization i)) log) = error_dict x"
  shows "newsletter_history (fst (fst (App_generate e i (s, log)))) = newsletter_history s"
  using assms
  by (cases "NewsletterGenerator e (topic_input i) (Some (App_customization i)) log")
     (simp add: App_generate_def error_dict_def)

lemma app_generate_error_dict:
  assumes "fst (NewsletterGenerator e (topic_input i) (Some (app_customization i)) log) = error_dict x"
  shows "newsletter_history (fst (fst (app_generate e i (s, log)))) = newsletter_history s"
  using assms
  by (cases "NewsletterGenerator e (topic_input i) (Some (app_customization i)) log")
     (simp add: app_generate_def error_dict_def)

lemma App_generate_error_shown:
  assumes "topic_input i \<noteq> []" "keys_configured i"
    and "fst (NewsletterGenerator e (topic_input i) (Some (App_customization i)) log) = error_dict x"
  shows "St_error ([10060] @ ustr '' Error: '' @ ustr ''Error generating newsletter: '' @ exn_str x)
           \<in> set (snd (App_generate e i (s, log)))"
  using assms
  by (cases "NewsletterGenerator e (topic_input i) (Some (App_customization i)) log")
     (simp add: App_generate_def error_dict_def)

lemma app_generate_error_shown:
  assumes "topic_input i \<noteq> []" "keys_configured i"
    and "fst (NewsletterGenerator e (topic_input i) (Some (app_customization i)) log) = error_dict x"
  shows "St_error ([10060] @ ustr '' Error: '' @ ustr ''Error generating newsletter: '' @ exn_str x)
           \<in> set (snd (app_generate e i (s, log)))"
  using assms
  by (cases "NewsletterGenerator e (topic_input i) (Some (app_customization i)) log")
     (simp add: app_generate_def error_dict_def)


lemma none_raises_answering: "none_raises (answering_env out) log calls"
  by (induction calls arbitrary: log) (simp_all add: answering_env_def)

lemma kickoff_output_answering: "kickoff_output (answering_env out) log = out"
  by (simp add: answering_env_def)

lemma sample_writing_answering:
  "\<exists>d. writing_description (answering_env out) topic
     \<lparr> tone = PStr (ustr ''Professional''), length_opt = PStr (ustr ''Medium (1000 words)''),
       focus = PStr (ustr ''Balanced''), include_images = PBool a,
       include_cta = PBool b, include_stats = PBool True, include_quotes = PBool True,
       template = PStr (ustr ''Standard''), custom_sections = PNone \<rparr> = Inr d"
  unfolding answering_env_def by (rule sample_writing)

lemma sample_writing_failing:
  "\<exists>d. writing_description (failing_env msg) topic
     \<lparr> tone = PStr (ustr ''Professional''), length_opt = PStr (ustr ''Medium (1000 words)''),
       focus = PStr (ustr ''Balanced''), include_images = PBool a,
       include_cta = PBool b, include_stats = PBool True, include_quotes = PBool True,
       template = PStr (ustr ''Standard''), custom_sections = PNone \<rparr> = Inr d"
  unfolding failing_env_def by (rule sample_writing)

text \<open>
  Claim C2. For every topic and customization: when the description of the writing
  task is built and none of the four external calls raises, \<^verbatim>\<open>NewsletterGenerator\<close>
  returns the status \<^verbatim>\<open>"success"\<close> and, as the content, the text \<^verbatim>\<open>str(result)\<close> the
  kickoff gave, as it is (and it has made exactly those four calls); the description
  is built whenever tone and focus are strings and the length is a string with an
  opening parenthesis; and the Markdown download the page offers (in \<^verbatim>\<open>App.py\<close> and
  in \<^verbatim>\<open>app.py\<close>) has that text as its data.
\<close>

theorem success_result:
  assumes "opts = extract_options (customization_or_empty c)"
    and "A = extract_options (App_customization i)"
    and "a = extract_options (app_customization i)"
  shows
  "(writing_description e topic opts = Inr d \<and> none_raises e log (request_calls topic opts d) \<longrightarrow>
      NewsletterGenerator e topic c log =
        (\<lparr> content = kickoff_output e (log @ request_calls topic opts d),
           status = ustr ''success'',
           customization_entry = Some (customization_or_empty c) \<rparr>,
         log @ request_calls topic opts d)) \<and>
   (tone opts = PStr t \<and> length_opt opts = PStr l \<and> of_char CHR ''('' \<in> set l \<and>
    focus opts = PStr f \<longrightarrow> (\<exists>d'. writing_description e topic opts = Inr d')) \<and>
   (topic_input i \<noteq> [] \<and> keys_configured i \<and>
    writing_description e (topic_input i) A = Inr d \<and>
    none_raises e log (request_calls (topic_input i) A d) \<longrightarrow>
      St_download_button ([128229] @ ustr '' Download Markdown'')
        (kickoff_output e (log @ request_calls (topic_input i) A d))
        (file_name (topic_input i) (ustr ''.md'')) (ustr ''text/markdown'')
      \<in> set (snd (App_generate e i (s, log)))) \<and>
   (topic_input i \<noteq> [] \<and> keys_configured i \<and>
    writing_description e (topic_input i) a = Inr d \<and>
    none_raises e log (request_calls (topic_input i) a d) \<longrightarrow>
      St_download_button ([128229] @ ustr '' Download Markdown'')
        (kickoff_output e (log @ request_calls (topic_input i) a d))
        (file_name (topic_input i) (ustr ''.md'')) (ustr ''text/markdown'')
      \<in> set (snd (app_generate e i (s, log))))"
proof (intro conjI impI)
  assume "writing_description e topic opts = Inr d \<and>
    none_raises e log (request_calls topic opts d)"
  then have "crew_run e topic opts log =
     (Inr (kickoff_output e (log @ request_calls topic opts d)), log @ request_calls topic opts d)"
    by (simp add: crew_run_completes)
  then show "NewsletterGenerator e topic c log =
        (\<lparr> content = kickoff_output e (log @ request_calls topic opts d),
           status = ustr ''success'',
           customization_entry = Some (customization_or_empty c) \<rparr>,
         log @ request_calls topic opts d)"
    unfolding assms(1) by (rule NewsletterGenerator_Inr)
next
  assume "tone opts = PStr t \<and> length_opt opts = PStr l \<and> of_char CHR ''('' \<in> set l \<and>
    focus opts = PStr f"
  then show "\<exists>d'. writing_description e topic opts = Inr d'"
    using writing_description_total [of opts t l f e topic] by blast
next
  assume h: "topic_input i \<noteq> [] \<and> keys_configured i \<and>
    writing_description e (topic_input i) A = Inr d \<and>
    none_raises e log (request_calls (topic_input i) A d)"
  then have "crew_run e (topic_input i) A log =
     (Inr (kickoff_output e (log @ request_calls (topic_input i) A d)),
      log @ request_calls (topic_input i) A d)"
    by (simp add: crew_run_completes)
  then have r: "fst (crew_run e (topic_input i) (extract_options (App_customization i)) log) =
     Inr (kickoff_output e (log @ request_calls (topic_input i) A d))"
    unfolding assms(2) by simp
  have "St_download_button ([128229] @ ustr '' Download Markdown'')
        (kickoff_output e (log @ request_calls (topic_input i) A d))
        (file_name (topic_input i) (ustr ''.md'')) (ustr ''text/markdown'')
      \<in> set (App_result_page (topic_input i)
               (kickoff_output e (log @ request_calls (topic_input i) A d)))"
    by (simp add: App_result_page_def)
  with h App_generate_success(2) [OF _ _ r, of s]
  show "St_download_button ([128229] @ ustr '' Download Markdown'')
        (kickoff_output e (log @ request_calls (topic_input i) A d))
        (file_name (topic_input i) (ustr ''.md'')) (ustr ''text/markdown'')
      \<in> set (snd (App_generate e i (s, log)))"
    by blast
next
  assume h: "topic_input i \<noteq> [] \<and> keys_configured i \<and>
    writing_description e (topic_input i) a = Inr d \<and>
    none_raises e log (request_calls (topic_input i) a d)"
  then have "crew_run e (topic_input i) a log =
     (Inr (kickoff_output e (log @ request_calls (topic_input i) a d)),
      log @ request_calls (topic_input i) a d)"
    by (simp add: crew_run_completes)
  then have r: "fst (crew_run e (topic_input i) (extract_options (app_customization i)) log) =
     Inr (kickoff_output e (log @ request_calls (topic_input i) a d))"
    unfolding assms(3) by simp
  have "St_download_button ([128229] @ ustr '' Download Markdown'')
        (kickoff_output e (log @ request_calls (topic_input i) a d))
        (file_name (topic_input i) (ustr ''.md'')) (ustr ''text/markdown'')
      \<in> set (app_result_page (topic_input i)
               (kickoff_output e (log @ request_calls (topic_input i) a d)))"
    by (simp add: app_result_page_def)
  with h app_generate_success [OF _ _ r, of s]
  show "St_download_button ([128229] @ ustr '' Download Markdown'')
        (kickoff_output e (log @ request_calls (topic_input i) a d))
        (file_name (topic_input i) (ustr ''.md'')) (ustr ''text/markdown'')
      \<in> set (snd (app_generate e i (s, log)))"
    by blast
qed

text \<open>
  The property of claim C2 on concrete inputs: the topic \<^verbatim>\<open>"Climate tech"\<close>, the
  Standard template, and a framework that answers with a newsletter.
\<close>

theorem success_result_witness:
  "fst (NewsletterGenerator (answering_env sample_newsletter) (ustr ''Climate tech'')
         (Some (App_customization sample_inputs)) []) =
     \<lparr> content = sample_newsletter, status = ustr ''success'',
       customization_entry = Some (App_customization sample_inputs) \<rparr> \<and>
   length (snd (NewsletterGenerator (answering_env sample_newsletter) (ustr ''Climate tech'')
         (Some (App_customization sample_inputs)) [])) = 4 \<and>
   St_download_button ([128229] @ ustr '' Download Markdown'') sample_newsletter
     (ustr ''newsletter_Climate_tech.md'') (ustr ''text/markdown'')
   \<in> set (snd (App_generate (answering_env sample_newsletter) sample_inputs (new_session, []))) \<and>
   St_download_button ([128229] @ ustr '' Download Markdown'') sample_newsletter
     (ustr ''newsletter_Climate_tech.md'') (ustr ''text/markdown'')
   \<in> set (snd (app_generate (answering_env sample_newsletter) sample_inputs (new_session, [])))"
proof -
  let ?e = "answering_env sample_newsletter"
  let ?A = "extract_options (App_customization sample_inputs)"
  let ?a = "extract_options (app_customization sample_inputs)"
  obtain d where d: "writing_description ?e (ustr ''Climate tech'') ?A = Inr d"
    unfolding sample_App_options using sample_writing_answering by blast
  obtain d' where d': "writing_description ?e (ustr ''Climate tech'') ?a = Inr d'"
    unfolding sample_app_options using sample_writing_answering by blast
  have o: "?A = extract_options (customization_or_empty (Some (App_customization sample_inputs)))"
    by simp
  note 1 = success_result [OF o refl refl, of ?e "ustr ''Climate tech''" d "[]" _ _ _ sample_inputs new_session]
  note 2 = success_result [OF o refl refl, of ?e "ustr ''Climate tech''" d' "[]" _ _ _ sample_inputs new_session]
  have n: "NewsletterGenerator ?e (ustr ''Climate tech'') (Some (App_customization sample_inputs)) [] =
        (\<lparr> content = sample_newsletter, status = ustr ''success'',
           customization_entry = Some (App_customization sample_inputs) \<rparr>,
         request_calls (ustr ''Climate tech'') ?A d)"
    using 1 d by (simp add: none_raises_answering kickoff_output_answering)
  have A: "St_download_button ([128229] @ ustr '' Download Markdown'') sample_newsletter
     (ustr ''newsletter_Climate_tech.md'') (ustr ''text/markdown'')
   \<in> set (snd (App_generate ?e sample_inputs (new_session, [])))"
    using 1 d sample_keys sample_file_name
    by (simp add: none_raises_answering kickoff_output_answering sample_topic)
  have a: "St_download_button ([128229] @ ustr '' Download Markdown'') sample_newsletter
     (ustr ''newsletter_Climate_tech.md'') (ustr ''text/markdown'')
   \<in> set (snd (app_generate ?e sample_inputs (new_session, [])))"
    using 2 d' sample_keys sample_file_name
    by (simp add: none_raises_answering kickoff_output_answering sample_topic)
  from n A a show ?thesis by (simp add: request_calls_def)
qed

lemma raises_answering: "raises (answering_env out) log c = None"
  by (simp add: answering_env_def)

lemma none_raises_failing:
  "none_raises (failing_env msg) log [research_task topic opts, writing_task d, New_Crew]"
  by (simp add: failing_env_def research_task_def writing_task_def)

lemma raises_failing: "raises (failing_env msg) log (Kickoff topic) = Some (FrameworkError msg)"
  by (simp add: failing_env_def)

lemma error_dict_eval:
  "error_dict (FrameworkError (ustr ''rate limit reached'')) =
     \<lparr> content = ustr ''Error generating newsletter: rate limit reached'',
       status = ustr ''error'', customization_entry = None \<rparr>"
  "error_dict (IndexError (ustr ''list index out of range'')) =
     \<lparr> content = ustr ''Error generating newsletter: list index out of range'',
       status = ustr ''error'', customization_entry = None \<rparr>"
  "error_dict (AttributeError m) =
     \<lparr> content = ustr ''Error generating newsletter: '' @ m,
       status = ustr ''error'', customization_entry = None \<rparr>"
  by (simp_all add: error_dict_def)

text \<open>
  Claim C3. For every topic and customization, an exception \<open>x\<close> raised in the
  \<^verbatim>\<open>try\<close> block makes \<^verbatim>\<open>NewsletterGenerator\<close> return the status \<^verbatim>\<open>"error"\<close> and the
  content \<^verbatim>\<open>"Error generating newsletter: "\<close> followed by \<^verbatim>\<open>str(x)\<close>, and nothing
  else, with no call made behind the one that raised. That holds for each place an
  exception can come from: the constructor of the research task, the building of the
  description of the writing task, the constructor of the writing task, the
  constructor of the crew, and the kickoff. Building the description raises when the
  tone is no string, when the length is no string or has no opening parenthesis, and
  when the focus is no string. No external call is made twice. And a page that gets
  this result (\<^verbatim>\<open>App.py\<close> and \<^verbatim>\<open>app.py\<close>) leaves the history as it was and shows the
  message.
\<close>

theorem error_result:
  assumes "opts = extract_options (customization_or_empty c)"
  shows
  "(raises e log (research_task topic opts) = Some x \<longrightarrow>
      NewsletterGenerator e topic c log = (error_dict x, log @ [research_task topic opts])) \<and>
   (raises e log (research_task topic opts) = None \<and>
    writing_description e topic opts = Inl x \<longrightarrow>
      NewsletterGenerator e topic c log = (error_dict x, log @ [research_task topic opts])) \<and>
   (writing_description e topic opts = Inr d \<and>
    none_raises e log [research_task topic opts] \<and>
    raises e (log @ [research_task topic opts]) (writing_task d) = Some x \<longrightarrow>
      NewsletterGenerator e topic c log =
        (error_dict x, log @ [research_task topic opts, writing_task d])) \<and>
   (writing_description e topic opts = Inr d \<and>
    none_raises e log [research_task topic opts, writing_task d] \<and>
    raises e (log @ [research_task topic opts, writing_task d]) New_Crew = Some x \<longrightarrow>
      NewsletterGenerator e topic c log =
        (error_dict x, log @ [research_task topic opts, writing_task d, New_Crew])) \<and>
   (writing_description e topic opts = Inr d \<and>
    none_raises e log [research_task topic opts, writing_task d, New_Crew] \<and>
    raises e (log @ [research_task topic opts, writing_task d, New_Crew]) (Kickoff topic)
      = Some x \<longrightarrow>
      NewsletterGenerator e topic c log = (error_dict x, log @ request_calls topic opts d)) \<and>
   ((\<forall>v. tone opts \<noteq> PStr v) \<longrightarrow>
      writing_description e topic opts =
        Inl (AttributeError ([39] @ type_name (tone opts) @ [39] @
               ustr '' object has no attribute '' @ [39] @ ustr ''lower'' @ [39]))) \<and>
   (tone opts = PStr t \<and> (\<forall>v. length_opt opts \<noteq> PStr v) \<longrightarrow>
      writing_description e topic opts =
        Inl (AttributeError ([39] @ type_name (length_opt opts) @ [39] @
               ustr '' object has no attribute '' @ [39] @ ustr ''split'' @ [39]))) \<and>
   (tone opts = PStr t \<and> length_opt opts = PStr l \<and> of_char CHR ''('' \<notin> set l \<longrightarrow>
      writing_description e topic opts =
        Inl (IndexError (ustr ''list index out of range''))) \<and>
   (tone opts = PStr t \<and> length_opt opts = PStr l \<and> of_char CHR ''('' \<in> set l \<and>
    (\<forall>v. focus opts \<noteq> PStr v) \<longrightarrow>
      writing_description e topic opts =
        Inl (AttributeError ([39] @ type_name (focus opts) @ [39] @
               ustr '' object has no attribute '' @ [39] @ ustr ''lower'' @ [39]))) \<and>
   content (error_dict x) = ustr ''Error generating newsletter: '' @ exn_str x \<and>
   status (error_dict x) = ustr ''error'' \<and>
   (\<exists>calls. snd (NewsletterGenerator e topic c log) = log @ calls \<and> distinct calls \<and>
      length calls \<le> 4) \<and>
   (fst (NewsletterGenerator e (topic_input i) (Some (App_customization i)) log) = error_dict x
      \<longrightarrow> newsletter_history (fst (fst (App_generate e i (s, log)))) = newsletter_history s) \<and>
   (fst (NewsletterGenerator e (topic_input i) (Some (app_customization i)) log) = error_dict x
      \<longrightarrow> newsletter_history (fst (fst (app_generate e i (s, log)))) = newsletter_history s) \<and>
   (topic_input i \<noteq> [] \<and> keys_configured i \<and>
    fst (NewsletterGenerator e (topic_input i) (Some (App_customization i)) log) = error_dict x
      \<longrightarrow> St_error ([10060] @ ustr '' Error: '' @ ustr ''Error generating newsletter: '' @
             exn_str x) \<in> set (snd (App_generate e i (s, log)))) \<and>
   (topic_input i \<noteq> [] \<and> keys_configured i \<and>
    fst (NewsletterGenerator e (topic_input i) (Some (app_customization i)) log) = error_dict x
      \<longrightarrow> St_error ([10060] @ ustr '' Error: '' @ ustr ''Error generating newsletter: '' @
             exn_str x) \<in> set (snd (app_generate e i (s, log))))"
proof (intro conjI impI)
  note N = NewsletterGenerator_Inl [of e topic c log x, folded assms]
  show "NewsletterGenerator e topic c log = (error_dict x, log @ [research_task topic opts])"
    if "raises e log (research_task topic opts) = Some x"
    by (rule N, rule crew_run_research_raises, rule that)
  show "NewsletterGenerator e topic c log = (error_dict x, log @ [research_task topic opts])"
    if "raises e log (research_task topic opts) = None \<and>
        writing_description e topic opts = Inl x"
    by (rule N, rule crew_run_description_raises) (use that in blast)+
  show "NewsletterGenerator e topic c log =
        (error_dict x, log @ [research_task topic opts, writing_task d])"
    if "writing_description e topic opts = Inr d \<and>
        none_raises e log [research_task topic opts] \<and>
        raises e (log @ [research_task topic opts]) (writing_task d) = Some x"
    by (rule N, rule crew_run_writing_raises) (use that in blast)+
  show "NewsletterGenerator e topic c log =
        (error_dict x, log @ [research_task topic opts, writing_task d, New_Crew])"
    if "writing_description e topic opts = Inr d \<and>
        none_raises e log [research_task topic opts, writing_task d] \<and>
        raises e (log @ [research_task topic opts, writing_task d]) New_Crew = Some x"
    by (rule N, rule crew_run_crew_raises) (use that in blast)+
  show "NewsletterGenerator e topic c log = (error_dict x, log @ request_calls topic opts d)"
    if "writing_description e topic opts = Inr d \<and>
        none_raises e log [research_task topic opts, writing_task d, New_Crew] \<and>
        raises e (log @ [research_task topic opts, writing_task d, New_Crew]) (Kickoff topic)
          = Some x"
    by (rule N, rule crew_run_kickoff_raises) (use that in blast)+
  show "writing_description e topic opts =
        Inl (AttributeError ([39] @ type_name (tone opts) @ [39] @
               ustr '' object has no attribute '' @ [39] @ ustr ''lower'' @ [39]))"
    if "\<forall>v. tone opts \<noteq> PStr v"
    by (rule writing_description_tone, rule that)
  show "writing_description e topic opts =
        Inl (AttributeError ([39] @ type_name (length_opt opts) @ [39] @
               ustr '' object has no attribute '' @ [39] @ ustr ''split'' @ [39]))"
    if "tone opts = PStr t \<and> (\<forall>v. length_opt opts \<noteq> PStr v)"
    by (rule writing_description_length [of opts t]) (use that in blast)+
  show "writing_description e topic opts =
        Inl (IndexError (ustr ''list index out of range''))"
    if "tone opts = PStr t \<and> length_opt opts = PStr l \<and> of_char CHR ''('' \<notin> set l"
    by (rule writing_description_index [of opts t l]) (use that in blast)+
  show "writing_description e topic opts =
        Inl (AttributeError ([39] @ type_name (focus opts) @ [39] @
               ustr '' object has no attribute '' @ [39] @ ustr ''lower'' @ [39]))"
    if "tone opts = PStr t \<and> length_opt opts = PStr l \<and> of_char CHR ''('' \<in> set l \<and>
        (\<forall>v. focus opts \<noteq> PStr v)"
    by (rule writing_description_focus [of opts t l]) (use that in blast)+
  show "content (error_dict x) = ustr ''Error generating newsletter: '' @ exn_str x"
    by (simp add: error_dict_def)
  show "status (error_dict x) = ustr ''error''"
    by (simp add: error_dict_def)
  show "\<exists>calls. snd (NewsletterGenerator e topic c log) = log @ calls \<and> distinct calls \<and>
      length calls \<le> 4"
    using NewsletterGenerator_calls [of e topic c log] by blast
  show "newsletter_history (fst (fst (App_generate e i (s, log)))) = newsletter_history s"
    if "fst (NewsletterGenerator e (topic_input i) (Some (App_customization i)) log) = error_dict x"
    by (rule App_generate_error_dict, rule that)
  show "newsletter_history (fst (fst (app_generate e i (s, log)))) = newsletter_history s"
    if "fst (NewsletterGenerator e (topic_input i) (Some (app_customization i)) log) = error_dict x"
    by (rule app_generate_error_dict, rule that)
  show "St_error ([10060] @ ustr '' Error: '' @ ustr ''Error generating newsletter: '' @
             exn_str x) \<in> set (snd (App_generate e i (s, log)))"
    if "topic_input i \<noteq> [] \<and> keys_configured i \<and>
        fst (NewsletterGenerator e (topic_input i) (Some (App_customization i)) log) = error_dict x"
    by (rule App_generate_error_shown) (use that in blast)+
  show "St_error ([10060] @ ustr '' Error: '' @ ustr ''Error generating newsletter: '' @
             exn_str x) \<in> set (snd (app_generate e i (s, log)))"
    if "topic_input i \<noteq> [] \<and> keys_configured i \<and>
        fst (NewsletterGenerator e (topic_input i) (Some (app_customization i)) log) = error_dict x"
    by (rule app_generate_error_shown) (use that in blast)+
qed

text \<open>
  The property of claim C3 on concrete inputs: a kickoff that raises; a tone that
  is \<^verbatim>\<open>None\<close>; and a length without a parenthesis, on which the subscript \<^verbatim>\<open>[1]\<close>
  raises.
\<close>

theorem error_result_witness:
  "fst (NewsletterGenerator (failing_env (ustr ''rate limit reached'')) (ustr ''Climate tech'')
         (Some (App_customization sample_inputs)) []) =
     \<lparr> content = ustr ''Error generating newsletter: rate limit reached'',
       status = ustr ''error'', customization_entry = None \<rparr> \<and>
   newsletter_history (fst (fst (App_generate (failing_env (ustr ''rate limit reached''))
     sample_inputs (new_session, [])))) = [] \<and>
   St_error ([10060] @ ustr '' Error: Error generating newsletter: rate limit reached'')
     \<in> set (snd (App_generate (failing_env (ustr ''rate limit reached''))
          sample_inputs (new_session, []))) \<and>
   fst (NewsletterGenerator (answering_env sample_newsletter) (ustr ''Climate tech'')
         (Some [ustr ''tone'' \<mapsto> PNone]) []) =
     \<lparr> content = ustr ''Error generating newsletter: '' @ [39] @ ustr ''NoneType'' @ [39] @
                 ustr '' object has no attribute '' @ [39] @ ustr ''lower'' @ [39],
       status = ustr ''error'', customization_entry = None \<rparr> \<and>
   fst (NewsletterGenerator (answering_env sample_newsletter) (ustr ''Climate tech'')
         (Some [ustr ''length'' \<mapsto> PStr (ustr ''Medium'')]) []) =
     \<lparr> content = ustr ''Error generating newsletter: list index out of range'',
       status = ustr ''error'', customization_entry = None \<rparr>"
proof -
  let ?f = "failing_env (ustr ''rate limit reached'')"
  let ?e = "answering_env sample_newsletter"
  let ?t = "ustr ''Climate tech''"
  let ?A = "extract_options (App_customization sample_inputs)"
  let ?x = "FrameworkError (ustr ''rate limit reached'')"
  have o: "?A = extract_options (customization_or_empty (Some (App_customization sample_inputs)))"
    by simp
  obtain d where d: "writing_description ?f ?t ?A = Inr d"
    unfolding sample_App_options using sample_writing_failing by blast
  note k = error_result [OF o, of ?f "[]" ?t ?x d _ _ sample_inputs new_session]
  note k5 = k [THEN conjunct2, THEN conjunct2, THEN conjunct2, THEN conjunct2, THEN conjunct1]
  have "writing_description ?f ?t ?A = Inr d \<and>
        none_raises ?f [] [research_task ?t ?A, writing_task d, New_Crew] \<and>
        raises ?f ([] @ [research_task ?t ?A, writing_task d, New_Crew]) (Kickoff ?t) = Some ?x"
    using d none_raises_failing raises_failing by blast
  with k5 have "NewsletterGenerator ?f ?t (Some (App_customization sample_inputs)) [] =
        (error_dict ?x, [] @ request_calls ?t ?A d)"
    by (rule mp)
  then have n1: "fst (NewsletterGenerator ?f ?t (Some (App_customization sample_inputs)) []) =
        error_dict ?x"
    by simp
  then have n1': "fst (NewsletterGenerator ?f (topic_input sample_inputs)
        (Some (App_customization sample_inputs)) []) = error_dict ?x"
    unfolding sample_topic .
  note k13 = k [THEN conjunct2, THEN conjunct2, THEN conjunct2, THEN conjunct2, THEN conjunct2,
                THEN conjunct2, THEN conjunct2, THEN conjunct2, THEN conjunct2, THEN conjunct2,
                THEN conjunct2, THEN conjunct2, THEN conjunct1]
  from k13 n1' have "newsletter_history (fst (fst (App_generate ?f sample_inputs (new_session, []))))
        = newsletter_history new_session"
    by (rule mp)
  then have h1: "newsletter_history (fst (fst (App_generate ?f sample_inputs (new_session, [])))) = []"
    by (simp add: new_session_def)
  note k15 = k [THEN conjunct2, THEN conjunct2, THEN conjunct2, THEN conjunct2, THEN conjunct2,
                THEN conjunct2, THEN conjunct2, THEN conjunct2, THEN conjunct2, THEN conjunct2,
                THEN conjunct2, THEN conjunct2, THEN conjunct2, THEN conjunct2, THEN conjunct1]
  have "topic_input sample_inputs \<noteq> [] \<and> keys_configured sample_inputs \<and>
        fst (NewsletterGenerator ?f (topic_input sample_inputs)
          (Some (App_customization sample_inputs)) []) = error_dict ?x"
    using n1' sample_keys by (simp add: sample_topic)
  with k15 have "St_error ([10060] @ ustr '' Error: '' @ ustr ''Error generating newsletter: '' @
             exn_str ?x) \<in> set (snd (App_generate ?f sample_inputs (new_session, [])))"
    by (rule mp)
  then have s1: "St_error ([10060] @ ustr '' Error: Error generating newsletter: rate limit reached'')
     \<in> set (snd (App_generate ?f sample_inputs (new_session, [])))"
    by simp
  let ?c2 = "[ustr ''tone'' \<mapsto> PNone]"
  let ?o2 = "extract_options (customization_or_empty (Some ?c2))"
  let ?x2 = "AttributeError ([39] @ type_name (tone ?o2) @ [39] @
               ustr '' object has no attribute '' @ [39] @ ustr ''lower'' @ [39])"
  note k2 = error_result [OF refl, of ?e "[]" ?t "Some ?c2" ?x2]
  have t2: "tone ?o2 = PNone" by (simp add: extract_options_def dict_get_def)
  have "\<forall>v. tone ?o2 \<noteq> PStr v" unfolding t2 by simp
  with k2 [THEN conjunct2, THEN conjunct2, THEN conjunct2, THEN conjunct2, THEN conjunct2,
           THEN conjunct1]
  have w2: "writing_description ?e ?t ?o2 = Inl ?x2" by (rule mp)
  have "raises ?e [] (research_task ?t ?o2) = None \<and> writing_description ?e ?t ?o2 = Inl ?x2"
    using w2 raises_answering by blast
  with k2 [THEN conjunct2, THEN conjunct1]
  have "NewsletterGenerator ?e ?t (Some ?c2) [] = (error_dict ?x2, [] @ [research_task ?t ?o2])"
    by (rule mp)
  then have "fst (NewsletterGenerator ?e ?t (Some ?c2) []) = error_dict ?x2" by simp
  then have n2: "fst (NewsletterGenerator ?e ?t (Some ?c2) []) =
     \<lparr> content = ustr ''Error generating newsletter: '' @ [39] @ ustr ''NoneType'' @ [39] @
                 ustr '' object has no attribute '' @ [39] @ ustr ''lower'' @ [39],
       status = ustr ''error'', customization_entry = None \<rparr>"
    unfolding t2 error_dict_eval by simp
  let ?c3 = "[ustr ''length'' \<mapsto> PStr (ustr ''Medium'')]"
  let ?o3 = "extract_options (customization_or_empty (Some ?c3))"
  let ?x3 = "IndexError (ustr ''list index out of range'')"
  note k3 = error_result [OF refl, of ?e "[]" ?t "Some ?c3" ?x3 _
              "ustr ''Professional''" "ustr ''Medium''"]
  have t3: "tone ?o3 = PStr (ustr ''Professional'') \<and> length_opt ?o3 = PStr (ustr ''Medium'') \<and>
            of_char CHR ''('' \<notin> set (ustr ''Medium'')"
    by (simp add: extract_options_def dict_get_def)
  with k3 [THEN conjunct2, THEN conjunct2, THEN conjunct2, THEN conjunct2, THEN conjunct2,
           THEN conjunct2, THEN conjunct2, THEN conjunct1]
  have w3: "writing_description ?e ?t ?o3 = Inl ?x3" by (rule mp)
  have "raises ?e [] (research_task ?t ?o3) = None \<and> writing_description ?e ?t ?o3 = Inl ?x3"
    using w3 raises_answering by blast
  with k3 [THEN conjunct2, THEN conjunct1]
  have "NewsletterGenerator ?e ?t (Some ?c3) [] = (error_dict ?x3, [] @ [research_task ?t ?o3])"
    by (rule mp)
  then have "fst (NewsletterGenerator ?e ?t (Some ?c3) []) = error_dict ?x3" by simp
  then have n3: "fst (NewsletterGenerator ?e ?t (Some ?c3) []) =
     \<lparr> content = ustr ''Error generating newsletter: list index out of range'',
       status = ustr ''error'', customization_entry = None \<rparr>"
    unfolding error_dict_eval .
  from n1 [unfolded error_dict_eval] h1 s1 n2 n3 show ?thesis by (intro conjI)
qed

end
